theory Spec2Isabelle
  imports Main "HOL-Library.Word" "HOL-Library.Sublist"
begin

unbundle bit_operations_syntax

section \<open>JavaScript values\<close>

text \<open>
  A JavaScript string is a sequence of 16-bit code units; \<open>length\<close>, the regular
  expressions without the \<open>u\<close> flag, \<open>split\<close>, \<open>substring\<close> and \<open>===\<close> all work on
  code units. \<open>js\<close> writes a literal of the source as such a sequence.
\<close>

type_synonym code_unit = "16 word"
type_synonym jsstring = "code_unit list"

definition js :: "string \<Rightarrow> jsstring" where
  "js s = map (\<lambda>c. of_nat (of_char c)) s"

text \<open>
  Numbers. \<open>Num i\<close> is the double that equals the integer \<open>i\<close>, for
  \<open>\<bar>i\<bar> \<le> 2 ^ 53\<close>, where every integer is a double (\<open>Num 0\<close> stands for both zeros);
  \<open>OtherNumber\<close> is any other double (a fraction, a double above \<open>2 ^ 53\<close> in
  magnitude, an infinity), whose value no function below inspects.
\<close>

datatype jsnumber = NaN | Num int | OtherNumber

datatype json =
    JNull
  | JBool bool
  | JNum jsnumber
  | JStr jsstring
  | JArr "json list"
  | JObj "(jsstring \<times> json) list"

text \<open>
  Reading a property of an object built from its members in order: a later member
  with the same key replaces an earlier one.
\<close>

definition get_prop :: "(jsstring \<times> json) list \<Rightarrow> jsstring \<Rightarrow> json option" where
  "get_prop kvs k = map_of (rev kvs) k"

text \<open>What the handlers can throw and catch.\<close>

datatype js_error =
    BodySyntaxError     \<comment> \<open>\<open>req.json()\<close> / \<open>response.json()\<close> rejects: the body is not JSON\<close>
  | DestructureTypeError \<comment> \<open>\<open>const { password } = null\<close>\<close>
  | FetchFailed         \<comment> \<open>\<open>fetch\<close> rejects: the remote host cannot be reached\<close>
  | BodyReadFailed      \<comment> \<open>\<open>response.text()\<close> rejects: the connection broke while reading\<close>
  | TrimTypeError       \<comment> \<open>\<open>count.trim()\<close> with \<open>count\<close> undefined\<close>
  | NotOkError          \<comment> \<open>\<open>throw new Error('Failed to check password')\<close> in the client\<close>

section \<open>String functions of the platform\<close>

text \<open>
  \<open>String.prototype.toLowerCase\<close>. On a string of ASCII code units it maps \<open>A-Z\<close> to
  \<open>a-z\<close> and leaves the rest. On any other string the result comes from the Unicode
  case tables, which are not part of this repository: they are the parameter \<open>ul\<close>.
\<close>

definition ascii_lower :: "code_unit \<Rightarrow> code_unit" where
  "ascii_lower c = (if 0x41 \<le> c \<and> c \<le> 0x5A then c + 0x20 else c)"

definition toLowerCase :: "(jsstring \<Rightarrow> jsstring) \<Rightarrow> jsstring \<Rightarrow> jsstring" where
  "toLowerCase ul s = (if list_all (\<lambda>c. c < 0x80) s then map ascii_lower s else ul s)"

text \<open>\<open>String.prototype.toUpperCase\<close>, used by the source on hexadecimal digits only.\<close>

definition ascii_upper :: "code_unit \<Rightarrow> code_unit" where
  "ascii_upper c = (if 0x61 \<le> c \<and> c \<le> 0x7A then c - 0x20 else c)"

text \<open>\<open>s.split(sep)\<close> for a separator of one code unit: never an empty array.\<close>

fun split_js :: "code_unit \<Rightarrow> jsstring \<Rightarrow> jsstring list" where
  "split_js sep [] = [[]]"
| "split_js sep (c # cs) =
     (if c = sep then [] # split_js sep cs
      else (case split_js sep cs of
              [] \<Rightarrow> [[c]]
            | x # xs \<Rightarrow> (c # x) # xs))"

text \<open>White space and line terminators, as \<open>trim\<close> and \<open>parseInt\<close> strip them.\<close>

definition is_whitespace :: "code_unit \<Rightarrow> bool" where
  "is_whitespace c \<longleftrightarrow>
     c \<in> {0x09, 0x0A, 0x0B, 0x0C, 0x0D, 0x20, 0xA0, 0x1680, 0x2028, 0x2029, 0x202F,
          0x205F, 0x3000, 0xFEFF} \<or> (0x2000 \<le> c \<and> c \<le> 0x200A)"

definition trim :: "jsstring \<Rightarrow> jsstring" where
  "trim s = rev (dropWhile is_whitespace (rev (dropWhile is_whitespace s)))"

text \<open>The value of a code unit as a digit, if it is one of \<open>0-9\<close>, \<open>a-z\<close>, \<open>A-Z\<close>.\<close>

definition digit_value :: "code_unit \<Rightarrow> nat option" where
  "digit_value c =
     (if 0x30 \<le> c \<and> c \<le> 0x39 then Some (unat c - 0x30)
      else if 0x61 \<le> c \<and> c \<le> 0x7A then Some (unat c - 0x61 + 10)
      else if 0x41 \<le> c \<and> c \<le> 0x5A then Some (unat c - 0x41 + 10)
      else None)"

definition is_digit :: "nat \<Rightarrow> code_unit \<Rightarrow> bool" where
  "is_digit R c = (case digit_value c of None \<Rightarrow> False | Some d \<Rightarrow> d < R)"

definition digits_value :: "nat \<Rightarrow> jsstring \<Rightarrow> nat" where
  "digits_value R Z =
     foldl (\<lambda>acc c. case digit_value c of None \<Rightarrow> acc | Some d \<Rightarrow> acc * R + d) 0 Z"

text \<open>
  The double nearest to an integer. Up to \<open>2 ^ 53\<close> in magnitude it is the integer
  itself. \<open>2 ^ 53 + 1\<close> lies halfway between the doubles \<open>2 ^ 53\<close> and \<open>2 ^ 53 + 2\<close>
  and rounds to the even one, \<open>2 ^ 53\<close>. Every larger integer rounds to a double above
  \<open>2 ^ 53\<close>.
\<close>

definition to_number :: "int \<Rightarrow> jsnumber" where
  "to_number i =
     (if \<bar>i\<bar> \<le> 2 ^ 53 then Num i
      else if \<bar>i\<bar> = 2 ^ 53 + 1 then Num (sgn i * 2 ^ 53)
      else OtherNumber)"

text \<open>
  \<open>parseInt(s)\<close> with no radix: leading white space, a sign, the prefix \<open>0x\<close>, then
  the longest run of digits; \<open>NaN\<close> when that run is empty.
\<close>

definition parseInt :: "jsstring \<Rightarrow> jsnumber" where
  "parseInt s =
     (let S = dropWhile is_whitespace s;
          sign = (case S of c # _ \<Rightarrow> if c = 0x2D then (-1::int) else 1 | [] \<Rightarrow> 1);
          S1 = (case S of c # cs \<Rightarrow> if c = 0x2D \<or> c = 0x2B then cs else S | [] \<Rightarrow> S);
          hex = (case S1 of a # b # _ \<Rightarrow> a = 0x30 \<and> (b = 0x78 \<or> b = 0x58) | _ \<Rightarrow> False);
          R = (if hex then 16 else 10);
          S2 = (if hex then drop 2 S1 else S1);
          Z = takeWhile (is_digit R) S2
      in if Z = [] then NaN else to_number (sign * int (digits_value R Z)))"

section \<open>The policy evaluator\<close>

text \<open>The tests \<open>/[A-Z]/\<close>, \<open>/[a-z]/\<close>, \<open>/[0-9]/\<close> and \<open>/[^A-Za-z0-9]/\<close> on a code unit.\<close>

definition is_upper :: "code_unit \<Rightarrow> bool" where
  "is_upper c \<longleftrightarrow> 0x41 \<le> c \<and> c \<le> 0x5A"

definition is_lower :: "code_unit \<Rightarrow> bool" where
  "is_lower c \<longleftrightarrow> 0x61 \<le> c \<and> c \<le> 0x7A"

definition is_number :: "code_unit \<Rightarrow> bool" where
  "is_number c \<longleftrightarrow> 0x30 \<le> c \<and> c \<le> 0x39"

definition is_special :: "code_unit \<Rightarrow> bool" where
  "is_special c \<longleftrightarrow> \<not> (is_upper c \<or> is_lower c \<or> is_number c)"

text \<open>\<open>regex.test(s)\<close> for a regular expression that is one character class.\<close>

definition regex_test :: "(code_unit \<Rightarrow> bool) \<Rightarrow> jsstring \<Rightarrow> bool" where
  "regex_test cls s = list_ex cls s"

definition msg_length :: jsstring where
  "msg_length = js ''Password must be at least 12 characters long''"

definition msg_upper :: jsstring where
  "msg_upper = js ''Password must contain at least one uppercase letter''"

definition msg_lower :: jsstring where
  "msg_lower = js ''Password must contain at least one lowercase letter''"

definition msg_number :: jsstring where
  "msg_number = js ''Password must contain at least one number''"

definition msg_special :: jsstring where
  "msg_special = js ''Password must contain at least one special character''"

definition msg_common :: jsstring where
  "msg_common = js ''This password is too common and easily guessed''"

definition commonPasswords :: "jsstring list" where
  "commonPasswords = map js
     [''password'', ''password123'', ''12345678'', ''qwerty'', ''abc123'',
      ''monkey'', ''1234567'', ''letmein'', ''trustno1'', ''dragon'',
      ''baseball'', ''iloveyou'', ''master'', ''sunshine'', ''ashley'',
      ''welcome'', ''admin'', ''root'', ''123456789'', ''12345678910'']"

text \<open>\<open>arr.push(x)\<close> when \<open>cond\<close> holds.\<close>

definition push_if :: "bool \<Rightarrow> 'a \<Rightarrow> 'a list \<Rightarrow> 'a list" where
  "push_if cond x arr = (if cond then arr @ [x] else arr)"

text \<open>Lines 38 to 65 of the handler: the array \<open>strengthIssues\<close> after the six rules.\<close>

definition strengthIssues :: "(jsstring \<Rightarrow> jsstring) \<Rightarrow> jsstring \<Rightarrow> jsstring list" where
  "strengthIssues ul password =
     (let s0 = [];
          s1 = push_if (length password < 12) msg_length s0;
          s2 = push_if (\<not> regex_test is_upper password) msg_upper s1;
          s3 = push_if (\<not> regex_test is_lower password) msg_lower s2;
          s4 = push_if (\<not> regex_test is_number password) msg_number s3;
          s5 = push_if (\<not> regex_test is_special password) msg_special s4;
          s6 = push_if (toLowerCase ul password \<in> set commonPasswords) msg_common s5
      in s6)"

section \<open>\<open>sha1\<close>: the digest of a password as upper-case hexadecimal\<close>

text \<open>
  \<open>new TextEncoder().encode(message)\<close>: the UTF-8 bytes of the string. A surrogate
  pair is one code point; a surrogate without its partner becomes U+FFFD.
\<close>

type_synonym byte = "8 word"
type_synonym u32 = "32 word"

definition is_high_surrogate :: "code_unit \<Rightarrow> bool" where
  "is_high_surrogate c \<longleftrightarrow> 0xD800 \<le> c \<and> c \<le> 0xDBFF"

definition is_low_surrogate :: "code_unit \<Rightarrow> bool" where
  "is_low_surrogate c \<longleftrightarrow> 0xDC00 \<le> c \<and> c \<le> 0xDFFF"

definition utf8_code_point :: "nat \<Rightarrow> byte list" where
  "utf8_code_point cp =
     (if cp < 0x80 then [of_nat cp]
      else if cp < 0x800 then [of_nat (0xC0 + cp div 64), of_nat (0x80 + cp mod 64)]
      else if cp < 0x10000 then
        [of_nat (0xE0 + cp div 4096), of_nat (0x80 + cp div 64 mod 64), of_nat (0x80 + cp mod 64)]
      else
        [of_nat (0xF0 + cp div 262144), of_nat (0x80 + cp div 4096 mod 64),
         of_nat (0x80 + cp div 64 mod 64), of_nat (0x80 + cp mod 64)])"

fun encode :: "jsstring \<Rightarrow> byte list" where
  "encode [] = []"
| "encode [c] =
     (if is_high_surrogate c \<or> is_low_surrogate c then utf8_code_point 0xFFFD
      else utf8_code_point (unat c))"
| "encode (c # d # cs) =
     (if is_high_surrogate c \<and> is_low_surrogate d then
        utf8_code_point (0x10000 + (unat c - 0xD800) * 1024 + (unat d - 0xDC00)) @ encode cs
      else if is_high_surrogate c \<or> is_low_surrogate c then
        utf8_code_point 0xFFFD @ encode (d # cs)
      else utf8_code_point (unat c) @ encode (d # cs))"

text \<open>
  \<open>crypto.subtle.digest("SHA-1", msgBuffer)\<close>, after FIPS 180-4: the message is padded
  to blocks of 64 bytes; each block is expanded to 80 words and run through four
  groups of 20 rounds.
\<close>

definition rotl :: "nat \<Rightarrow> u32 \<Rightarrow> u32" where
  "rotl n w = push_bit n w OR drop_bit (32 - n) w"

definition be_bytes64 :: "64 word \<Rightarrow> byte list" where
  "be_bytes64 v = map (\<lambda>i. ucast (drop_bit (8 * i) v)) [7, 6, 5, 4, 3, 2, 1, 0]"

definition be_bytes32 :: "u32 \<Rightarrow> byte list" where
  "be_bytes32 v = map (\<lambda>i. ucast (drop_bit (8 * i) v)) [3, 2, 1, 0]"

definition sha1_pad :: "byte list \<Rightarrow> byte list" where
  "sha1_pad m =
     m @ [0x80] @ replicate ((119 - length m mod 64) mod 64) 0 @ be_bytes64 (8 * of_nat (length m))"

fun be_word :: "byte list \<Rightarrow> u32" where
  "be_word [] = 0"
| "be_word (b # bs) = push_bit (8 * length bs) (ucast b) OR be_word bs"

fun chunks :: "nat \<Rightarrow> nat \<Rightarrow> 'a list \<Rightarrow> 'a list list" where
  "chunks 0 n xs = []"
| "chunks (Suc k) n xs = take n xs # chunks k n (drop n xs)"

definition sha1_next :: "u32 list \<Rightarrow> u32" where
  "sha1_next w = rotl 1 (w ! 13 XOR w ! 8 XOR w ! 2 XOR w ! 0)"

fun sha1_schedule :: "nat \<Rightarrow> u32 list \<Rightarrow> u32 list" where
  "sha1_schedule 0 w = []"
| "sha1_schedule (Suc k) w = sha1_next w # sha1_schedule k (tl w @ [sha1_next w])"

definition sha1_ch :: "u32 \<Rightarrow> u32 \<Rightarrow> u32 \<Rightarrow> u32" where
  "sha1_ch b c d = (b AND c) OR (NOT b AND d)"

definition sha1_parity :: "u32 \<Rightarrow> u32 \<Rightarrow> u32 \<Rightarrow> u32" where
  "sha1_parity b c d = b XOR c XOR d"

definition sha1_maj :: "u32 \<Rightarrow> u32 \<Rightarrow> u32 \<Rightarrow> u32" where
  "sha1_maj b c d = (b AND c) OR (b AND d) OR (c AND d)"

type_synonym sha1_state = "u32 \<times> u32 \<times> u32 \<times> u32 \<times> u32"

fun sha1_rounds :: "(u32 \<Rightarrow> u32 \<Rightarrow> u32 \<Rightarrow> u32) \<Rightarrow> u32 \<Rightarrow> u32 list \<Rightarrow> sha1_state \<Rightarrow> sha1_state" where
  "sha1_rounds f k [] s = s"
| "sha1_rounds f k (w # ws) (a, b, c, d, e) =
     sha1_rounds f k ws (rotl 5 a + f b c d + e + k + w, a, rotl 30 b, c, d)"

definition sha1_expand :: "u32 list \<Rightarrow> u32 list" where
  "sha1_expand w16 = w16 @ sha1_schedule 64 w16"

definition sha1_compress :: "u32 list \<Rightarrow> sha1_state \<Rightarrow> sha1_state" where
  "sha1_compress w h =
     sha1_rounds sha1_parity 0xCA62C1D6 (drop 60 w)
       (sha1_rounds sha1_maj 0x8F1BBCDC (take 20 (drop 40 w))
          (sha1_rounds sha1_parity 0x6ED9EBA1 (take 20 (drop 20 w))
             (sha1_rounds sha1_ch 0x5A827999 (take 20 w) h)))"

fun sha1_add :: "sha1_state \<Rightarrow> sha1_state \<Rightarrow> sha1_state" where
  "sha1_add (h0, h1, h2, h3, h4) (a, b, c, d, e) = (h0 + a, h1 + b, h2 + c, h3 + d, h4 + e)"

definition sha1_block :: "sha1_state \<Rightarrow> byte list \<Rightarrow> sha1_state" where
  "sha1_block h blk = sha1_add h (sha1_compress (sha1_expand (map be_word (chunks 16 4 blk))) h)"

fun sha1_blocks :: "sha1_state \<Rightarrow> byte list \<Rightarrow> sha1_state" where
  "sha1_blocks h [] = h"
| "sha1_blocks h (b # bs) = sha1_blocks (sha1_block h (take 64 (b # bs))) (drop 63 bs)"

fun sha1_output :: "sha1_state \<Rightarrow> byte list" where
  "sha1_output (h0, h1, h2, h3, h4) = concat (map be_bytes32 [h0, h1, h2, h3, h4])"

definition sha1_digest :: "byte list \<Rightarrow> byte list" where
  "sha1_digest m =
     sha1_output (sha1_blocks (0x67452301, 0xEFCDAB89, 0x98BADCFE, 0x10325476, 0xC3D2E1F0) (sha1_pad m))"

text \<open>
  \<open>b.toString(16).padStart(2, '0')\<close> for each byte, joined, then \<open>toUpperCase()\<close>;
  the string holds only the digits \<open>0-9a-f\<close>, which \<open>ascii_upper\<close> maps as
  \<open>toUpperCase\<close> does.
\<close>

definition hex_digit :: "nat \<Rightarrow> code_unit" where
  "hex_digit d = (if d < 10 then 0x30 + of_nat d else 0x61 + of_nat (d - 10))"

definition byte_toString16 :: "byte \<Rightarrow> jsstring" where
  "byte_toString16 b =
     (if unat b < 16 then [hex_digit (unat b)]
      else [hex_digit (unat b div 16), hex_digit (unat b mod 16)])"

definition padStart :: "nat \<Rightarrow> code_unit \<Rightarrow> jsstring \<Rightarrow> jsstring" where
  "padStart n c s = replicate (n - length s) c @ s"

definition sha1 :: "jsstring \<Rightarrow> jsstring" where
  "sha1 message =
     (let msgBuffer = encode message;
          hashArray = sha1_digest msgBuffer
      in map ascii_upper (concat (map (\<lambda>b. padStart 2 0x30 (byte_toString16 b)) hashArray)))"

section \<open>The service: \<open>supabase/functions/check-password/index.ts\<close>\<close>

record request =
  req_method :: jsstring
  req_json :: "json option"  \<comment> \<open>\<open>await req.json()\<close>; \<open>None\<close> when it rejects\<close>

text \<open>
  A response body is absent, or the object given to \<open>JSON.stringify\<close>. In the body of
  the 500 response, \<open>{ error: "Internal server error", details: error.message }\<close>,
  the text of \<open>error.message\<close> is the runtime's: \<open>InternalErrorBody\<close> records which
  error was caught. A number in a body is the value before \<open>JSON.stringify\<close>, which
  writes \<open>NaN\<close> as \<open>null\<close>.
\<close>

datatype http_body = NoBody | JsonBody json | InternalErrorBody js_error

record response =
  res_status :: nat
  res_headers :: "(jsstring \<times> jsstring) list"
  res_body :: http_body

definition corsHeaders :: "(jsstring \<times> jsstring) list" where
  "corsHeaders =
     [(js ''Access-Control-Allow-Origin'', js ''*''),
      (js ''Access-Control-Allow-Methods'', js ''POST, OPTIONS''),
      (js ''Access-Control-Allow-Headers'', js ''Content-Type, Authorization, X-Client-Info, Apikey'')]"

definition json_response :: "nat \<Rightarrow> json \<Rightarrow> response" where
  "json_response st payload =
     \<lparr>res_status = st,
      res_headers = corsHeaders @ [(js ''Content-Type'', js ''application/json'')],
      res_body = JsonBody payload\<rparr>"

text \<open>The outbound call: what \<open>fetch\<close> is given and what it answers.\<close>

record fetch_request =
  fetch_url :: jsstring
  fetch_headers :: "(jsstring \<times> jsstring) list"

datatype fetch_result =
    FetchRejects                          \<comment> \<open>no response: the promise rejects\<close>
  | FetchResponse nat "jsstring option"   \<comment> \<open>status, and \<open>await response.text()\<close> if it resolves\<close>

definition response_ok :: "nat \<Rightarrow> bool" where
  "response_ok st \<longleftrightarrow> 200 \<le> st \<and> st \<le> 299"

text \<open>\<open>const { password } = ...\<close>: \<open>None\<close> is \<open>undefined\<close>.\<close>

fun destructure_password :: "json \<Rightarrow> js_error + json option" where
  "destructure_password JNull = Inl DestructureTypeError"
| "destructure_password (JObj kvs) = Inr (get_prop kvs (js ''password''))"
| "destructure_password (JBool b) = Inr None"
| "destructure_password (JNum n) = Inr None"
| "destructure_password (JStr s) = Inr None"
| "destructure_password (JArr xs) = Inr None"

fun falsy :: "json option \<Rightarrow> bool" where
  "falsy None = True"
| "falsy (Some JNull) = True"
| "falsy (Some (JBool b)) = (\<not> b)"
| "falsy (Some (JNum n)) = (n = NaN \<or> n = Num 0)"
| "falsy (Some (JStr s)) = (s = [])"
| "falsy (Some (JArr xs)) = False"
| "falsy (Some (JObj kvs)) = False"

fun typeof :: "json option \<Rightarrow> string" where
  "typeof None = ''undefined''"
| "typeof (Some JNull) = ''object''"
| "typeof (Some (JBool b)) = ''boolean''"
| "typeof (Some (JNum n)) = ''number''"
| "typeof (Some (JStr s)) = ''string''"
| "typeof (Some (JArr xs)) = ''object''"
| "typeof (Some (JObj kvs)) = ''object''"

text \<open>The string in a value whose \<open>typeof\<close> is \<open>string\<close>.\<close>

fun string_of :: "json option \<Rightarrow> jsstring" where
  "string_of (Some (JStr s)) = s"
| "string_of _ = []"

definition bad_request_response :: response where
  "bad_request_response =
     json_response 400 (JObj [(js ''error'', JStr (js ''Password is required''))])"

definition weak_response :: "jsstring list \<Rightarrow> response" where
  "weak_response issues =
     json_response 200
       (JObj [(js ''isBreached'', JBool False),
              (js ''isWeak'', JBool True),
              (js ''issues'', JArr (map JStr issues))])"

definition degraded_response :: response where
  "degraded_response =
     json_response 200
       (JObj [(js ''isBreached'', JBool False),
              (js ''isWeak'', JBool False),
              (js ''apiError'', JBool True),
              (js ''message'', JStr (js ''Unable to check password breach status, but password meets strength requirements''))])"

definition breached_response :: "jsnumber \<Rightarrow> response" where
  "breached_response n =
     json_response 200
       (JObj [(js ''isBreached'', JBool True),
              (js ''isWeak'', JBool False),
              (js ''breachCount'', JNum n),
              (js ''message'', JStr (js ''This password has been exposed in a data breach''))])"

definition clean_response :: response where
  "clean_response =
     json_response 200
       (JObj [(js ''isBreached'', JBool False),
              (js ''isWeak'', JBool False),
              (js ''message'', JStr (js ''Password is secure''))])"

definition internal_error_response :: "js_error \<Rightarrow> response" where
  "internal_error_response e =
     \<lparr>res_status = 500,
      res_headers = corsHeaders @ [(js ''Content-Type'', js ''application/json'')],
      res_body = InternalErrorBody e\<rparr>"

text \<open>
  The loop over the lines of the remote answer (lines 117 to 133): \<open>Inr (Some r)\<close> is
  the \<open>return\<close> inside the loop, \<open>Inr None\<close> is the loop running to its end.
\<close>

fun scan_hashes :: "jsstring \<Rightarrow> jsstring list \<Rightarrow> js_error + response option" where
  "scan_hashes sfx [] = Inr None"
| "scan_hashes sfx (line # hashes) =
     (case split_js 0x3A line of
        [] \<Rightarrow> scan_hashes sfx hashes
      | hashSuffix # rest \<Rightarrow>
          if hashSuffix = sfx then
            (case rest of
               [] \<Rightarrow> Inl TrimTypeError
             | count # _ \<Rightarrow> Inr (Some (breached_response (parseInt (trim count)))))
          else scan_hashes sfx hashes)"

definition range_request :: "jsstring \<Rightarrow> fetch_request" where
  "range_request pfx =
     \<lparr>fetch_url = js ''https://api.pwnedpasswords.com/range/'' @ pfx,
      fetch_headers = [(js ''Add-Padding'', js ''true'')]\<rparr>"

text \<open>
  Lines 81 to 146, with \<open>pfx\<close> and \<open>sfx\<close> for the source's \<open>prefix\<close> and \<open>suffix\<close>.
  The result is paired with the list of requests given to \<open>fetch\<close>.
\<close>

definition breach_lookup ::
  "(fetch_request \<Rightarrow> fetch_result) \<Rightarrow> jsstring \<Rightarrow> (js_error + response) \<times> fetch_request list" where
  "breach_lookup fetch password =
     (let hash = sha1 password;
          pfx = take 5 hash;
          sfx = drop 5 hash
      in ((case fetch (range_request pfx) of
             FetchRejects \<Rightarrow> Inl FetchFailed
           | FetchResponse st body \<Rightarrow>
               if \<not> response_ok st then Inr degraded_response
               else (case body of
                       None \<Rightarrow> Inl BodyReadFailed
                     | Some text \<Rightarrow>
                         (case scan_hashes sfx (split_js 0x0A text) of
                            Inl e \<Rightarrow> Inl e
                          | Inr (Some r) \<Rightarrow> Inr r
                          | Inr None \<Rightarrow> Inr clean_response))),
          [range_request pfx]))"

text \<open>The body of the \<open>try\<close> block (lines 25 to 146).\<close>

definition handler_try ::
  "(jsstring \<Rightarrow> jsstring) \<Rightarrow> (fetch_request \<Rightarrow> fetch_result) \<Rightarrow> request
     \<Rightarrow> (js_error + response) \<times> fetch_request list" where
  "handler_try ul fetch req =
     (case req_json req of
        None \<Rightarrow> (Inl BodySyntaxError, [])
      | Some parsed \<Rightarrow>
          (case destructure_password parsed of
             Inl e \<Rightarrow> (Inl e, [])
           | Inr password \<Rightarrow>
               if falsy password \<or> typeof password \<noteq> ''string'' then
                 (Inr bad_request_response, [])
               else if length (strengthIssues ul (string_of password)) > 0 then
                 (Inr (weak_response (strengthIssues ul (string_of password))), [])
               else breach_lookup fetch (string_of password)))"

text \<open>The handler given to \<open>Deno.serve\<close>: the response, and the requests it made.\<close>

definition handler ::
  "(jsstring \<Rightarrow> jsstring) \<Rightarrow> (fetch_request \<Rightarrow> fetch_result) \<Rightarrow> request
     \<Rightarrow> response \<times> fetch_request list" where
  "handler ul fetch req =
     (if req_method req = js ''OPTIONS'' then
        (\<lparr>res_status = 200, res_headers = corsHeaders, res_body = NoBody\<rparr>, [])
      else (case handler_try ul fetch req of
              (Inr r, out) \<Rightarrow> (r, out)
            | (Inl e, out) \<Rightarrow> (internal_error_response e, out)))"

section \<open>Reading requests and responses\<close>

text \<open>A field of a JSON object, and of the JSON object in a response body.\<close>

fun json_field :: "json \<Rightarrow> string \<Rightarrow> json option" where
  "json_field (JObj kvs) k = get_prop kvs (js k)"
| "json_field _ k = None"

fun body_field :: "response \<Rightarrow> string \<Rightarrow> json option" where
  "body_field r k = (case res_body r of JsonBody j \<Rightarrow> json_field j k | _ \<Rightarrow> None)"

text \<open>
  The string that the handler binds to \<open>password\<close>, for a request that is not a
  pre-flight request and whose body is JSON with a string in that field.
\<close>

definition request_password :: "request \<Rightarrow> jsstring option" where
  "request_password req =
     (if req_method req = js ''OPTIONS'' then None
      else (case req_json req of
              None \<Rightarrow> None
            | Some parsed \<Rightarrow>
                (case destructure_password parsed of
                   Inr (Some (JStr pw)) \<Rightarrow> Some pw
                 | _ \<Rightarrow> None)))"

text \<open>A POST request whose body is the JSON object \<open>{ "password": pw }\<close>.\<close>

definition post_password :: "jsstring \<Rightarrow> request" where
  "post_password pw =
     \<lparr>req_method = js ''POST'', req_json = Some (JObj [(js ''password'', JStr pw)])\<rparr>"

text \<open>
  Stand-ins for the surroundings in the examples: a remote service that answers every
  request with one status and text, one that cannot be reached, and, for the Unicode
  case tables, a function that is never consulted on the ASCII strings of the examples.
\<close>

definition stub_remote :: "nat \<Rightarrow> jsstring \<Rightarrow> fetch_request \<Rightarrow> fetch_result" where
  "stub_remote st text r = FetchResponse st (Some text)"

definition unreachable_remote :: "fetch_request \<Rightarrow> fetch_result" where
  "unreachable_remote r = FetchRejects"

definition unicode_unchanged :: "jsstring \<Rightarrow> jsstring" where
  "unicode_unchanged s = s"

section \<open>The client: \<open>src/utils/passwordValidation.ts\<close>\<close>

record env =
  VITE_SUPABASE_URL :: jsstring
  VITE_SUPABASE_ANON_KEY :: jsstring

record client_request =
  cr_url :: jsstring
  cr_method :: jsstring
  cr_headers :: "(jsstring \<times> jsstring) list"
  cr_body :: json  \<comment> \<open>the object given to \<open>JSON.stringify\<close>\<close>

datatype client_fetch_result =
    ClientFetchRejects                 \<comment> \<open>transport failure: the promise rejects\<close>
  | ClientResponse nat "json option"   \<comment> \<open>status, and \<open>await response.json()\<close> if it resolves\<close>

definition unable_result :: json where
  "unable_result =
     JObj [(js ''isBreached'', JBool False),
           (js ''isWeak'', JBool False),
           (js ''message'', JStr (js ''Unable to verify password security'')),
           (js ''apiError'', JBool True)]"

definition check_request :: "env \<Rightarrow> jsstring \<Rightarrow> client_request" where
  "check_request e password =
     \<lparr>cr_url = VITE_SUPABASE_URL e @ js ''/functions/v1/check-password'',
      cr_method = js ''POST'',
      cr_headers = [(js ''Content-Type'', js ''application/json''),
                    (js ''Authorization'', js ''Bearer '' @ VITE_SUPABASE_ANON_KEY e)],
      cr_body = JObj [(js ''password'', JStr password)]\<rparr>"

text \<open>The body of the \<open>try\<close> block of \<open>checkPassword\<close>.\<close>

definition checkPassword_try ::
  "env \<Rightarrow> (client_request \<Rightarrow> client_fetch_result) \<Rightarrow> jsstring \<Rightarrow> js_error + json" where
  "checkPassword_try e fetch password =
     (case fetch (check_request e password) of
        ClientFetchRejects \<Rightarrow> Inl FetchFailed
      | ClientResponse st parsed \<Rightarrow>
          if \<not> response_ok st then Inl NotOkError
          else (case parsed of
                  None \<Rightarrow> Inl BodySyntaxError
                | Some result \<Rightarrow> Inr result))"

text \<open>\<open>checkPassword\<close>: \<open>Inl\<close> would be a rejected promise, \<open>Inr\<close> is the value it resolves to.\<close>

definition checkPassword ::
  "env \<Rightarrow> (client_request \<Rightarrow> client_fetch_result) \<Rightarrow> jsstring \<Rightarrow> js_error + json" where
  "checkPassword e fetch password =
     (case checkPassword_try e fetch password of
        Inr result \<Rightarrow> Inr result
      | Inl error \<Rightarrow> Inr unable_result)"

text \<open>Stand-ins for the client's surroundings: an endpoint with one fixed answer.\<close>

definition client_stub :: "client_fetch_result \<Rightarrow> client_request \<Rightarrow> client_fetch_result" where
  "client_stub answer r = answer"

definition example_env :: env where
  "example_env =
     \<lparr>VITE_SUPABASE_URL = js ''https://example.supabase.co'',
      VITE_SUPABASE_ANON_KEY = js ''anon-key''\<rparr>"

section \<open>Digests of the example passwords\<close>

lemma chunks_numeral:
  "chunks (numeral k) n xs = take n xs # chunks (pred_numeral k) n (drop n xs)"
  by (simp add: numeral_eq_Suc)

lemma sha1_schedule_numeral:
  "sha1_schedule (numeral k) w =
     sha1_next w # sha1_schedule (pred_numeral k) (tl w @ [sha1_next w])"
  by (simp add: numeral_eq_Suc)

lemmas sha1_block_eval = sha1_block_def sha1_expand_def sha1_compress_def sha1_next_def
  chunks_numeral sha1_schedule_numeral rotl_def sha1_ch_def sha1_parity_def sha1_maj_def

lemmas sha1_hex_eval = be_bytes32_def hex_digit_def byte_toString16_def padStart_def
  ascii_upper_def

lemma sha1_pad_password:
  "sha1_pad (encode (js ''password'')) =
     [0x70, 0x61, 0x73, 0x73, 0x77, 0x6F, 0x72, 0x64, 0x80, 0x00, 0x00, 0x00, 0x00, 0x00,
      0x00, 0x00, 0x00, 0x00, 0x00, 0x00, 0x00, 0x00, 0x00, 0x00, 0x00, 0x00, 0x00, 0x00,
      0x00, 0x00, 0x00, 0x00, 0x00, 0x00, 0x00, 0x00, 0x00, 0x00, 0x00, 0x00, 0x00, 0x00,
      0x00, 0x00, 0x00, 0x00, 0x00, 0x00, 0x00, 0x00, 0x00, 0x00, 0x00, 0x00, 0x00, 0x00,
      0x00, 0x00, 0x00, 0x00, 0x00, 0x00, 0x00, 0x40]"
  by code_simp

lemma sha1_block_password:
  "sha1_block (0x67452301, 0xEFCDAB89, 0x98BADCFE, 0x10325476, 0xC3D2E1F0)
     [0x70, 0x61, 0x73, 0x73, 0x77, 0x6F, 0x72, 0x64, 0x80, 0x00, 0x00, 0x00, 0x00, 0x00,
      0x00, 0x00, 0x00, 0x00, 0x00, 0x00, 0x00, 0x00, 0x00, 0x00, 0x00, 0x00, 0x00, 0x00,
      0x00, 0x00, 0x00, 0x00, 0x00, 0x00, 0x00, 0x00, 0x00, 0x00, 0x00, 0x00, 0x00, 0x00,
      0x00, 0x00, 0x00, 0x00, 0x00, 0x00, 0x00, 0x00, 0x00, 0x00, 0x00, 0x00, 0x00, 0x00,
      0x00, 0x00, 0x00, 0x00, 0x00, 0x00, 0x00, 0x40]
   = (0x5BAA61E4, 0xC9B93F3F, 0x0682250B, 0x6CF8331B, 0x7EE68FD8)"
  by (simp add: sha1_block_eval)

lemma sha1_password:
  "sha1 (js ''password'') = js ''5BAA61E4C9B93F3F0682250B6CF8331B7EE68FD8''"
  by (simp add: sha1_def sha1_digest_def sha1_pad_password sha1_block_password sha1_hex_eval)
     (simp add: js_def)

lemma sha1_pad_example:
  "sha1_pad (encode (js ''Correct-Horse-236!'')) =
     [0x43, 0x6F, 0x72, 0x72, 0x65, 0x63, 0x74, 0x2D, 0x48, 0x6F, 0x72, 0x73, 0x65, 0x2D,
      0x32, 0x33, 0x36, 0x21, 0x80, 0x00, 0x00, 0x00, 0x00, 0x00, 0x00, 0x00, 0x00, 0x00,
      0x00, 0x00, 0x00, 0x00, 0x00, 0x00, 0x00, 0x00, 0x00, 0x00, 0x00, 0x00, 0x00, 0x00,
      0x00, 0x00, 0x00, 0x00, 0x00, 0x00, 0x00, 0x00, 0x00, 0x00, 0x00, 0x00, 0x00, 0x00,
      0x00, 0x00, 0x00, 0x00, 0x00, 0x00, 0x00, 0x90]"
  by code_simp

lemma sha1_block_example:
  "sha1_block (0x67452301, 0xEFCDAB89, 0x98BADCFE, 0x10325476, 0xC3D2E1F0)
     [0x43, 0x6F, 0x72, 0x72, 0x65, 0x63, 0x74, 0x2D, 0x48, 0x6F, 0x72, 0x73, 0x65, 0x2D,
      0x32, 0x33, 0x36, 0x21, 0x80, 0x00, 0x00, 0x00, 0x00, 0x00, 0x00, 0x00, 0x00, 0x00,
      0x00, 0x00, 0x00, 0x00, 0x00, 0x00, 0x00, 0x00, 0x00, 0x00, 0x00, 0x00, 0x00, 0x00,
      0x00, 0x00, 0x00, 0x00, 0x00, 0x00, 0x00, 0x00, 0x00, 0x00, 0x00, 0x00, 0x00, 0x00,
      0x00, 0x00, 0x00, 0x00, 0x00, 0x00, 0x00, 0x90]
   = (0x26C000D9, 0xCD2F0CF2, 0x49A7E929, 0x9102FC4F, 0xE4137260)"
  by (simp add: sha1_block_eval)

lemma sha1_example:
  "sha1 (js ''Correct-Horse-236!'') = js ''26C000D9CD2F0CF249A7E9299102FC4FE4137260''"
  by (simp add: sha1_def sha1_digest_def sha1_pad_example sha1_block_example sha1_hex_eval)
     (simp add: js_def)

lemma sha1_pad_example2:
  "sha1_pad (encode (js ''Correct-Horse-250!'')) =
     [0x43, 0x6F, 0x72, 0x72, 0x65, 0x63, 0x74, 0x2D, 0x48, 0x6F, 0x72, 0x73, 0x65, 0x2D,
      0x32, 0x35, 0x30, 0x21, 0x80, 0x00, 0x00, 0x00, 0x00, 0x00, 0x00, 0x00, 0x00, 0x00,
      0x00, 0x00, 0x00, 0x00, 0x00, 0x00, 0x00, 0x00, 0x00, 0x00, 0x00, 0x00, 0x00, 0x00,
      0x00, 0x00, 0x00, 0x00, 0x00, 0x00, 0x00, 0x00, 0x00, 0x00, 0x00, 0x00, 0x00, 0x00,
      0x00, 0x00, 0x00, 0x00, 0x00, 0x00, 0x00, 0x90]"
  by code_simp

lemma sha1_block_example2:
  "sha1_block (0x67452301, 0xEFCDAB89, 0x98BADCFE, 0x10325476, 0xC3D2E1F0)
     [0x43, 0x6F, 0x72, 0x72, 0x65, 0x63, 0x74, 0x2D, 0x48, 0x6F, 0x72, 0x73, 0x65, 0x2D,
      0x32, 0x35, 0x30, 0x21, 0x80, 0x00, 0x00, 0x00, 0x00, 0x00, 0x00, 0x00, 0x00, 0x00,
      0x00, 0x00, 0x00, 0x00, 0x00, 0x00, 0x00, 0x00, 0x00, 0x00, 0x00, 0x00, 0x00, 0x00,
      0x00, 0x00, 0x00, 0x00, 0x00, 0x00, 0x00, 0x00, 0x00, 0x00, 0x00, 0x00, 0x00, 0x00,
      0x00, 0x00, 0x00, 0x00, 0x00, 0x00, 0x00, 0x90]
   = (0x26C009B8, 0x6274B361, 0x84114822, 0x36961A18, 0x3B76515A)"
  by (simp add: sha1_block_eval)

lemma sha1_example2:
  "sha1 (js ''Correct-Horse-250!'') = js ''26C009B86274B3618411482236961A183B76515A''"
  by (simp add: sha1_def sha1_digest_def sha1_pad_example2 sha1_block_example2 sha1_hex_eval)
     (simp add: js_def)

section \<open>The digest is forty digits, none of them a colon\<close>

lemma length_sha1_output: "length (sha1_output s) = 20"
  by (cases s) (simp add: be_bytes32_def)

lemma length_concat_pairs:
  "(\<And>b. length (f b) = 2) \<Longrightarrow> length (concat (map f bs)) = 2 * length bs"
  by (induction bs) simp_all

lemma length_hex_byte: "length (padStart 2 0x30 (byte_toString16 b)) = 2"
  by (simp add: padStart_def byte_toString16_def)

lemma length_sha1: "length (sha1 m) = 40"
  by (simp add: sha1_def sha1_digest_def length_concat_pairs [OF length_hex_byte]
        length_sha1_output)

lemma hex_digit_upper:
  "d < 16 \<Longrightarrow> ascii_upper (hex_digit d) \<in>
     {0x30, 0x31, 0x32, 0x33, 0x34, 0x35, 0x36, 0x37, 0x38, 0x39,
      0x41, 0x42, 0x43, 0x44, 0x45, 0x46}"
proof -
  assume "d < 16"
  then have "d = 0 \<or> d = 1 \<or> d = 2 \<or> d = 3 \<or> d = 4 \<or> d = 5 \<or> d = 6 \<or> d = 7
      \<or> d = 8 \<or> d = 9 \<or> d = 10 \<or> d = 11 \<or> d = 12 \<or> d = 13 \<or> d = 14 \<or> d = 15"
    by presburger
  then show ?thesis
    by (auto simp: hex_digit_def ascii_upper_def)
qed

lemma hex_byte_no_colon:
  assumes c: "c \<in> set (padStart 2 0x30 (byte_toString16 b))"
  shows "ascii_upper c \<noteq> 0x3A"
proof -
  have lt: "unat b div 16 < 16"
    using unsigned_less [of b, where 'a = nat] by (simp add: less_mult_imp_div_less)
  have md: "unat b mod 16 < 16"
    by simp
  from c consider "c = 0x30" | "unat b < 16" "c = hex_digit (unat b)"
    | "c = hex_digit (unat b div 16)" | "c = hex_digit (unat b mod 16)"
    by (auto simp: padStart_def byte_toString16_def split: if_splits)
  then show ?thesis
  proof cases
    case 1
    then show ?thesis by (simp add: ascii_upper_def)
  next
    case 2
    then show ?thesis using hex_digit_upper [of "unat b"] by auto
  next
    case 3
    then show ?thesis using hex_digit_upper [OF lt] by auto
  next
    case 4
    then show ?thesis using hex_digit_upper [OF md] by auto
  qed
qed

lemma sha1_no_colon: "0x3A \<notin> set (sha1 m)"
  by (auto simp: sha1_def dest: hex_byte_no_colon)

lemma sha1_suffix_no_colon: "0x3A \<notin> set (drop 5 (sha1 m))"
  using sha1_no_colon [of m] by (auto dest: in_set_dropD)

section \<open>Facts about the handler and the policy evaluator\<close>

lemma request_password_OPTIONS:
  "request_password req = Some pw \<Longrightarrow> req_method req \<noteq> js ''OPTIONS''"
  by (simp add: request_password_def split: if_splits)

lemma handler_password:
  assumes "request_password req = Some pw"
  shows "handler ul fetch req =
     (if pw = [] then (bad_request_response, [])
      else if strengthIssues ul pw \<noteq> [] then (weak_response (strengthIssues ul pw), [])
      else (case breach_lookup fetch pw of
              (Inr r, out) \<Rightarrow> (r, out)
            | (Inl e, out) \<Rightarrow> (internal_error_response e, out)))"
  using assms
  by (auto simp: request_password_def handler_def handler_try_def
           split: if_splits option.splits sum.splits json.splits)

lemma strengthIssues_eq:
  "strengthIssues ul pw =
     (if length pw < 12 then [msg_length] else []) @
     (if \<not> regex_test is_upper pw then [msg_upper] else []) @
     (if \<not> regex_test is_lower pw then [msg_lower] else []) @
     (if \<not> regex_test is_number pw then [msg_number] else []) @
     (if \<not> regex_test is_special pw then [msg_special] else []) @
     (if toLowerCase ul pw \<in> set commonPasswords then [msg_common] else [])"
  by (simp add: strengthIssues_def push_if_def)


lemma msgs_distinct:
  "distinct [msg_length, msg_upper, msg_lower, msg_number, msg_special, msg_common]"
  by (simp add: msg_length_def msg_upper_def msg_lower_def msg_number_def msg_special_def
        msg_common_def js_def)


lemma subseq_push:
  "subseq xs ys \<Longrightarrow> subseq ((if c then [m] else []) @ xs) (m # ys)"
  by (cases c) (simp_all add: list_emb_Cons)

lemma subseq_push_last: "subseq (if c then [m] else []) [m]"
  by simp

lemma subseq_imp_distinct: "subseq xs ys \<Longrightarrow> distinct ys \<Longrightarrow> distinct xs"
  by (auto simp: subseq_conv_nths)

lemma strengthIssues_subseq:
  "subseq (strengthIssues ul pw)
     [msg_length, msg_upper, msg_lower, msg_number, msg_special, msg_common]"
  by (simp only: strengthIssues_eq) (intro subseq_push subseq_push_last)

lemmas policy_eval = strengthIssues_def push_if_def regex_test_def is_upper_def is_lower_def
  is_number_def is_special_def toLowerCase_def ascii_lower_def commonPasswords_def js_def

lemmas response_eval = json_response_def bad_request_response_def weak_response_def
  degraded_response_def breached_response_def clean_response_def internal_error_response_def
  get_prop_def js_def

lemma body_field_bad_request:
  "body_field bad_request_response ''breachCount'' = None"
  "body_field bad_request_response ''error'' = Some (JStr (js ''Password is required''))"
  by (simp_all add: response_eval)

lemma body_field_weak:
  "body_field (weak_response issues) ''isWeak'' = Some (JBool True)"
  "body_field (weak_response issues) ''isBreached'' = Some (JBool False)"
  "body_field (weak_response issues) ''issues'' = Some (JArr (map JStr issues))"
  "body_field (weak_response issues) ''breachCount'' = None"
  by (simp_all add: response_eval)

lemma body_field_degraded:
  "body_field degraded_response ''isWeak'' = Some (JBool False)"
  "body_field degraded_response ''isBreached'' = Some (JBool False)"
  "body_field degraded_response ''apiError'' = Some (JBool True)"
  "body_field degraded_response ''breachCount'' = None"
  by (simp_all add: response_eval)

lemma body_field_breached:
  "body_field (breached_response n) ''isWeak'' = Some (JBool False)"
  "body_field (breached_response n) ''isBreached'' = Some (JBool True)"
  "body_field (breached_response n) ''breachCount'' = Some (JNum n)"
  by (simp_all add: response_eval)

lemma body_field_clean:
  "body_field clean_response ''isWeak'' = Some (JBool False)"
  "body_field clean_response ''isBreached'' = Some (JBool False)"
  "body_field clean_response ''apiError'' = None"
  "body_field clean_response ''breachCount'' = None"
  by (simp_all add: response_eval)

lemma body_field_internal_error:
  "body_field (internal_error_response e) k = None"
  by (simp add: internal_error_response_def)

lemma res_status_simps:
  "res_status bad_request_response = 400"
  "res_status (weak_response issues) = 200"
  "res_status degraded_response = 200"
  "res_status (breached_response n) = 200"
  "res_status clean_response = 200"
  "res_status (internal_error_response e) = 500"
  by (simp_all add: json_response_def bad_request_response_def weak_response_def
        degraded_response_def breached_response_def clean_response_def
        internal_error_response_def)

lemma scan_hashes_breached:
  "scan_hashes sfx ls = Inr (Some r) \<Longrightarrow> \<exists>n. r = breached_response n"
  by (induction ls) (auto split: list.splits if_splits)

lemma snd_breach_lookup:
  "snd (breach_lookup fetch pw) = [range_request (take 5 (sha1 pw))]"
  by (simp add: breach_lookup_def Let_def)

lemma fst_breach_lookup_forms:
  "(\<exists>e. fst (breach_lookup fetch pw) = Inl e)
   \<or> fst (breach_lookup fetch pw) = Inr degraded_response
   \<or> fst (breach_lookup fetch pw) = Inr clean_response
   \<or> (\<exists>n. fst (breach_lookup fetch pw) = Inr (breached_response n))"
  by (auto simp: breach_lookup_def Let_def
           split: fetch_result.splits option.splits sum.splits
           dest: scan_hashes_breached)

lemma handler_try_forms:
  "(\<exists>e. fst (handler_try ul fetch req) = Inl e)
   \<or> fst (handler_try ul fetch req) = Inr bad_request_response
   \<or> (\<exists>issues. fst (handler_try ul fetch req) = Inr (weak_response issues))
   \<or> fst (handler_try ul fetch req) = Inr degraded_response
   \<or> fst (handler_try ul fetch req) = Inr clean_response
   \<or> (\<exists>n. fst (handler_try ul fetch req) = Inr (breached_response n))"
proof (cases "req_json req")
  case None
  then show ?thesis by (simp add: handler_try_def)
next
  case (Some parsed)
  show ?thesis
  proof (cases "destructure_password parsed")
    case (Inl e)
    with Some show ?thesis by (simp add: handler_try_def)
  next
    case (Inr password)
    consider (bad) "falsy password \<or> typeof password \<noteq> ''string''"
      | (weak) "\<not> (falsy password \<or> typeof password \<noteq> ''string'')"
          "length (strengthIssues ul (string_of password)) > 0"
      | (lookup) "\<not> (falsy password \<or> typeof password \<noteq> ''string'')"
          "\<not> length (strengthIssues ul (string_of password)) > 0"
      by blast
    then show ?thesis
    proof cases
      case bad
      with Some Inr show ?thesis by (simp add: handler_try_def)
    next
      case weak
      with Some Inr have "fst (handler_try ul fetch req)
          = Inr (weak_response (strengthIssues ul (string_of password)))"
        by (simp add: handler_try_def)
      then show ?thesis by blast
    next
      case lookup
      with Some Inr have "handler_try ul fetch req = breach_lookup fetch (string_of password)"
        by (simp add: handler_try_def)
      then show ?thesis
        using fst_breach_lookup_forms [of fetch "string_of password"] by auto
    qed
  qed
qed

lemma handler_forms:
  "fst (handler ul fetch req) = \<lparr>res_status = 200, res_headers = corsHeaders, res_body = NoBody\<rparr>
   \<or> fst (handler ul fetch req) = bad_request_response
   \<or> (\<exists>issues. fst (handler ul fetch req) = weak_response issues)
   \<or> fst (handler ul fetch req) = degraded_response
   \<or> fst (handler ul fetch req) = clean_response
   \<or> (\<exists>n. fst (handler ul fetch req) = breached_response n)
   \<or> (\<exists>e. fst (handler ul fetch req) = internal_error_response e)"
proof (cases "req_method req = js ''OPTIONS''")
  case True
  then show ?thesis by (simp add: handler_def)
next
  case False
  obtain res out where tr: "handler_try ul fetch req = (res, out)"
    by (cases "handler_try ul fetch req")
  show ?thesis
  proof (cases res)
    case (Inl e)
    with False tr have "fst (handler ul fetch req) = internal_error_response e"
      by (simp add: handler_def)
    then show ?thesis by blast
  next
    case (Inr r)
    with False tr have "fst (handler ul fetch req) = r"
      by (simp add: handler_def)
    moreover from Inr tr have "fst (handler_try ul fetch req) = Inr r"
      by simp
    ultimately show ?thesis
      using handler_try_forms [of ul fetch req] by auto
  qed
qed

lemma breachCount_forms:
  assumes "body_field (fst (handler ul fetch req)) ''breachCount'' \<noteq> None"
  shows "\<exists>n. fst (handler ul fetch req) = breached_response n"
proof -
  have "body_field \<lparr>res_status = 200, res_headers = corsHeaders, res_body = NoBody\<rparr>
          ''breachCount'' = None"
    by simp
  then show ?thesis
    using assms handler_forms [of ul fetch req]
    by (auto simp: body_field_bad_request body_field_weak body_field_degraded
          body_field_clean body_field_internal_error simp del: body_field.simps)
qed

lemma split_js_first: "\<exists>rest. split_js sep s = takeWhile (\<lambda>c. c \<noteq> sep) s # rest"
  by (induction s) (auto split: list.splits)

lemma split_js_append:
  "sep \<notin> set a \<Longrightarrow> split_js sep (a @ sep # b) = a # split_js sep b"
  by (induction a) (auto split: list.splits)

lemma scan_hashes_no_match:
  "\<forall>l\<in>set ls. takeWhile (\<lambda>c. c \<noteq> 0x3A) l \<noteq> sfx \<Longrightarrow> scan_hashes sfx ls = Inr None"
proof (induction ls)
  case Nil
  then show ?case by simp
next
  case (Cons l ls)
  obtain rest where "split_js 0x3A l = takeWhile (\<lambda>c. c \<noteq> 0x3A) l # rest"
    using split_js_first by blast
  with Cons show ?case by simp
qed

lemma scan_hashes_skip:
  "\<forall>l\<in>set pre. takeWhile (\<lambda>c. c \<noteq> 0x3A) l \<noteq> sfx \<Longrightarrow>
     scan_hashes sfx (pre @ ls) = scan_hashes sfx ls"
proof (induction pre)
  case Nil
  then show ?case by simp
next
  case (Cons l pre)
  obtain rest where "split_js 0x3A l = takeWhile (\<lambda>c. c \<noteq> 0x3A) l # rest"
    using split_js_first by blast
  with Cons show ?case by simp
qed

lemma scan_hashes_match:
  assumes "\<forall>l\<in>set pre. takeWhile (\<lambda>c. c \<noteq> 0x3A) l \<noteq> sfx"
    and "0x3A \<notin> set sfx"
  shows "scan_hashes sfx (pre @ (sfx @ 0x3A # count) # post) =
           Inr (Some (breached_response (parseInt (trim (takeWhile (\<lambda>c. c \<noteq> 0x3A) count)))))"
proof -
  obtain rest where "split_js 0x3A count = takeWhile (\<lambda>c. c \<noteq> 0x3A) count # rest"
    using split_js_first by blast
  then show ?thesis
    using assms by (simp add: scan_hashes_skip split_js_append)
qed

lemma no_issues_iff:
  "strengthIssues ul pw = [] \<longleftrightarrow>
     12 \<le> length pw \<and> regex_test is_upper pw \<and> regex_test is_lower pw
     \<and> regex_test is_number pw \<and> regex_test is_special pw
     \<and> toLowerCase ul pw \<notin> set commonPasswords"
  by (auto simp: strengthIssues_eq)

section \<open>The examples, evaluated\<close>

lemma request_password_post: "request_password (post_password pw) = Some pw"
  by (simp add: request_password_def post_password_def get_prop_def js_def)

lemma example_no_issues:
  "strengthIssues ul (js ''Correct-Horse-236!'') = []"
  "strengthIssues ul (js ''Correct-Horse-250!'') = []"
  by (simp_all add: policy_eval)

lemma password_issues:
  "strengthIssues ul (js ''password'') = [msg_length, msg_upper, msg_number, msg_special, msg_common]"
  by (simp add: policy_eval)

lemmas lookup_eval = breach_lookup_def Let_def response_ok_def stub_remote_def
  unreachable_remote_def

lemmas text_eval = parseInt_def trim_def is_whitespace_def is_digit_def digit_value_def
  digits_value_def to_number_def js_def

lemma example_breached:
  "handler ul
     (stub_remote 200
        (js ''0018A45C4D1DEF81644B54AB7F969B88D65:1'' @ 0x0A #
         js ''0D9CD2F0CF249A7E9299102FC4FE4137260:3730471''))
     (post_password (js ''Correct-Horse-236!''))
   = (breached_response (Num 3730471), [range_request (js ''26C00'')])"
  by (simp add: handler_password request_password_post example_no_issues sha1_example
        lookup_eval)
     (simp_all add: text_eval)

lemma handler_lookup:
  assumes "request_password req = Some pw" and "strengthIssues ul pw = []"
  shows "handler ul fetch req =
           (case breach_lookup fetch pw of
              (Inr r, out) \<Rightarrow> (r, out)
            | (Inl e, out) \<Rightarrow> (internal_error_response e, out))"
proof -
  from assms(2) have "12 \<le> length pw"
    by (simp add: no_issues_iff)
  then have "pw \<noteq> []"
    by auto
  with assms show ?thesis
    by (simp add: handler_password)
qed

lemma remote_not_ok_degraded:
  assumes "request_password req = Some pw" and "strengthIssues ul pw = []"
    and "fetch (range_request (take 5 (sha1 pw))) = FetchResponse st body"
    and "\<not> response_ok st"
  shows "handler ul fetch req = (degraded_response, [range_request (take 5 (sha1 pw))])"
  using assms(3,4) by (simp add: handler_lookup [OF assms(1,2)] breach_lookup_def Let_def)

lemma remote_unreachable_500:
  assumes "request_password req = Some pw" and "strengthIssues ul pw = []"
    and "fetch (range_request (take 5 (sha1 pw))) = FetchRejects"
  shows "handler ul fetch req
           = (internal_error_response FetchFailed, [range_request (take 5 (sha1 pw))])"
  using assms(3) by (simp add: handler_lookup [OF assms(1,2)] breach_lookup_def Let_def)

lemma password_lookup_breached:
  "breach_lookup (stub_remote 200 (js ''1E4C9B93F3F0682250B6CF8331B7EE68FD8:3730471''))
     (js ''password'')
   = (Inr (breached_response (Num 3730471)), [range_request (js ''5BAA6'')])"
  by (simp add: sha1_password lookup_eval) (simp_all add: text_eval)

lemma password_lookup_other_suffix:
  "breach_lookup (stub_remote 200 (js ''1E4C9B93F3F0682250B6CF8331B7EE68FD9:3730471''))
     (js ''password'')
   = (Inr clean_response, [range_request (js ''5BAA6'')])"
  by (simp add: sha1_password lookup_eval) (simp_all add: text_eval)

lemma password_lookup_lower_case:
  "breach_lookup (stub_remote 200 (js ''1e4c9b93f3f0682250b6cf8331b7ee68fd8:3730471''))
     (js ''password'')
   = (Inr clean_response, [range_request (js ''5BAA6'')])"
  by (simp add: sha1_password lookup_eval) (simp_all add: text_eval)

lemma password_lookup_spec_line:
  "breach_lookup (stub_remote 200 (js ''1E4C9B93F3F0682250B6CF8331B7EE68FD:3730471''))
     (js ''password'')
   = (Inr clean_response, [range_request (js ''5BAA6'')])"
  by (simp add: sha1_password lookup_eval) (simp_all add: text_eval)

lemma password_weak:
  "handler ul fetch (post_password (js ''password''))
   = (weak_response [msg_length, msg_upper, msg_number, msg_special, msg_common], [])"
proof -
  have "js ''password'' \<noteq> []"
    by (simp add: js_def)
  then show ?thesis
    by (simp add: handler_password request_password_post password_issues)
qed

section \<open>The claims\<close>

text \<open>
  C1 (where the code departs from it). With a password that passes every rule and a
  remote service that cannot be reached, \<open>fetch\<close> rejects, the \<open>catch\<close> block takes
  over and the handler answers with status 500 and no \<open>apiError\<close> field. With the
  same password and a remote service that answers with status 500, the handler
  answers with status 200 and \<open>apiError = true\<close>.
\<close>

theorem unreachable_remote_gives_500:
  "strengthIssues unicode_unchanged (js ''Correct-Horse-236!'') = []
   \<and> handler unicode_unchanged unreachable_remote (post_password (js ''Correct-Horse-236!''))
       = (internal_error_response FetchFailed, [range_request (js ''26C00'')])
   \<and> res_status (internal_error_response FetchFailed) = 500
   \<and> body_field (internal_error_response FetchFailed) ''apiError'' = None
   \<and> handler unicode_unchanged (stub_remote 500 []) (post_password (js ''Correct-Horse-236!''))
       = (degraded_response, [range_request (js ''26C00'')])
   \<and> res_status degraded_response = 200
   \<and> body_field degraded_response ''apiError'' = Some (JBool True)"
proof -
  let ?pw = "js ''Correct-Horse-236!''"
  have pre: "take 5 (sha1 ?pw) = js ''26C00''"
    by (simp add: sha1_example) (simp add: js_def)
  have a: "handler unicode_unchanged unreachable_remote (post_password ?pw)
      = (internal_error_response FetchFailed, [range_request (take 5 (sha1 ?pw))])"
    by (rule remote_unreachable_500 [OF request_password_post])
       (simp_all add: example_no_issues unreachable_remote_def)
  have b: "handler unicode_unchanged (stub_remote 500 []) (post_password ?pw)
      = (degraded_response, [range_request (take 5 (sha1 ?pw))])"
    by (rule remote_not_ok_degraded [OF request_password_post, where st = 500 and body = "Some []"])
       (simp_all add: example_no_issues stub_remote_def response_ok_def)
  from a b pre show ?thesis
    by (simp add: example_no_issues res_status_simps body_field_internal_error
          body_field_degraded del: body_field.simps)
qed

text \<open>
  C2 (as the code has it). When the password of a request is a non-empty string and
  the evaluator reports an issue for it, the handler answers at once with status 200,
  \<open>isWeak = true\<close>, \<open>isBreached = false\<close> and the issues, and makes no outbound
  request. In every response of the handler that has a \<open>breachCount\<close>, \<open>isWeak\<close> is
  false.
\<close>

theorem weak_short_circuit:
  "(request_password req = Some pw \<and> pw \<noteq> [] \<and> strengthIssues ul pw \<noteq> [] \<longrightarrow>
      handler ul fetch req = (weak_response (strengthIssues ul pw), [])
      \<and> res_status (weak_response (strengthIssues ul pw)) = 200
      \<and> body_field (weak_response (strengthIssues ul pw)) ''isWeak'' = Some (JBool True)
      \<and> body_field (weak_response (strengthIssues ul pw)) ''isBreached'' = Some (JBool False)
      \<and> body_field (weak_response (strengthIssues ul pw)) ''issues''
            = Some (JArr (map JStr (strengthIssues ul pw))))
   \<and> (body_field (fst (handler ul fetch' req')) ''breachCount'' \<noteq> None \<longrightarrow>
        body_field (fst (handler ul fetch' req')) ''isWeak'' = Some (JBool False))"
proof (intro conjI impI)
  assume a: "request_password req = Some pw \<and> pw \<noteq> [] \<and> strengthIssues ul pw \<noteq> []"
  then show "handler ul fetch req = (weak_response (strengthIssues ul pw), [])"
    by (simp add: handler_password)
next
  assume "body_field (fst (handler ul fetch' req')) ''breachCount'' \<noteq> None"
  then obtain n where "fst (handler ul fetch' req') = breached_response n"
    using breachCount_forms by blast
  then show "body_field (fst (handler ul fetch' req')) ''isWeak'' = Some (JBool False)"
    by (simp add: body_field_breached del: body_field.simps)
qed (simp_all add: body_field_weak res_status_simps del: body_field.simps)

theorem weak_short_circuit_witness:
  "handler unicode_unchanged unreachable_remote (post_password (js ''password''))
     = (weak_response [msg_length, msg_upper, msg_number, msg_special, msg_common], [])
   \<and> body_field
         (fst (handler unicode_unchanged
                 (stub_remote 200
                    (js ''0018A45C4D1DEF81644B54AB7F969B88D65:1'' @ 0x0A #
                     js ''0D9CD2F0CF249A7E9299102FC4FE4137260:3730471''))
                 (post_password (js ''Correct-Horse-236!''))))
         ''breachCount'' = Some (JNum (Num 3730471))
   \<and> body_field
         (fst (handler unicode_unchanged
                 (stub_remote 200
                    (js ''0018A45C4D1DEF81644B54AB7F969B88D65:1'' @ 0x0A #
                     js ''0D9CD2F0CF249A7E9299102FC4FE4137260:3730471''))
                 (post_password (js ''Correct-Horse-236!''))))
         ''isWeak'' = Some (JBool False)"
proof -
  let ?weak = "post_password (js ''password'')"
  let ?remote = "stub_remote 200
                    (js ''0018A45C4D1DEF81644B54AB7F969B88D65:1'' @ 0x0A #
                     js ''0D9CD2F0CF249A7E9299102FC4FE4137260:3730471'')"
  let ?good = "post_password (js ''Correct-Horse-236!'')"
  have h1: "request_password ?weak = Some (js ''password'') \<and> js ''password'' \<noteq> []
      \<and> strengthIssues unicode_unchanged (js ''password'') \<noteq> []"
    by (simp add: request_password_post password_issues) (simp add: js_def)
  have h2: "body_field (fst (handler unicode_unchanged ?remote ?good)) ''breachCount''
      = Some (JNum (Num 3730471))"
    by (simp add: example_breached body_field_breached del: body_field.simps)
  from weak_short_circuit [of ?weak "js ''password''" unicode_unchanged unreachable_remote
      ?remote ?good] h1 h2
  show ?thesis
    by (simp add: password_issues del: body_field.simps)
qed

text \<open>
  C2 as the specification words it fails at the request \<open>{ "password": "" }\<close>: the
  evaluator has five issues for the empty string, and the handler answers with status
  400 and a body without \<open>isWeak\<close> and without \<open>issues\<close>.
\<close>

theorem empty_password_issues_counterexample:
  "request_password (post_password []) = Some []
   \<and> strengthIssues unicode_unchanged []
       = [msg_length, msg_upper, msg_lower, msg_number, msg_special]
   \<and> fst (handler unicode_unchanged unreachable_remote (post_password []))
       = bad_request_response
   \<and> res_status bad_request_response = 400
   \<and> body_field bad_request_response ''isWeak'' = None
   \<and> body_field bad_request_response ''issues'' = None"
proof -
  have issues: "strengthIssues unicode_unchanged []
      = [msg_length, msg_upper, msg_lower, msg_number, msg_special]"
    by (simp add: policy_eval)
  have fields: "body_field bad_request_response ''isWeak'' = None"
    "body_field bad_request_response ''issues'' = None"
    by (simp_all add: response_eval)
  have "handler unicode_unchanged unreachable_remote (post_password [])
      = (bad_request_response, [])"
    by (simp add: handler_password request_password_post)
  with issues fields show ?thesis
    by (simp add: request_password_post res_status_simps del: body_field.simps)
qed

text \<open>
  C3 (as the code has it). The digest of \<open>password\<close> has forty digits,
  \<open>5BAA61E4C9B93F3F0682250B6CF8331B7EE68FD8\<close>: prefix \<open>5BAA6\<close>, suffix
  \<open>1E4C9B93F3F0682250B6CF8331B7EE68FD8\<close>. The breach lookup, run on \<open>password\<close> against
  a stubbed answer with the line \<open>1E4C9B93F3F0682250B6CF8331B7EE68FD8:3730471\<close>, gives
  \<open>isBreached = true\<close> with \<open>breachCount = 3730471\<close>; against a line with another
  suffix, or with the suffix in lower case, it gives the clean result. For every
  password that passes the evaluator and every answer of the remote service with a
  status from 200 to 299: when the first line with the suffix before its first colon
  reads suffix, colon, count, the handler answers breached with \<open>parseInt\<close> of the
  count; when no line has the suffix before its first colon, the handler answers clean.
\<close>

theorem breach_suffix_matching:
  "sha1 (js ''password'') = js ''5BAA61E4C9B93F3F0682250B6CF8331B7EE68FD8''
   \<and> take 5 (sha1 (js ''password'')) = js ''5BAA6''
   \<and> drop 5 (sha1 (js ''password'')) = js ''1E4C9B93F3F0682250B6CF8331B7EE68FD8''
   \<and> fst (breach_lookup
             (stub_remote 200 (js ''1E4C9B93F3F0682250B6CF8331B7EE68FD8:3730471''))
             (js ''password'')) = Inr (breached_response (Num 3730471))
   \<and> fst (breach_lookup
             (stub_remote 200 (js ''1E4C9B93F3F0682250B6CF8331B7EE68FD9:3730471''))
             (js ''password'')) = Inr clean_response
   \<and> fst (breach_lookup
             (stub_remote 200 (js ''1e4c9b93f3f0682250b6cf8331b7ee68fd8:3730471''))
             (js ''password'')) = Inr clean_response
   \<and> body_field (breached_response n) ''isBreached'' = Some (JBool True)
   \<and> body_field (breached_response n) ''breachCount'' = Some (JNum n)
   \<and> body_field clean_response ''isBreached'' = Some (JBool False)
   \<and> body_field clean_response ''breachCount'' = None
   \<and> (request_password req = Some pw \<and> strengthIssues ul pw = []
        \<and> fetch (range_request (take 5 (sha1 pw))) = FetchResponse st (Some answer)
        \<and> response_ok st \<longrightarrow>
        (split_js 0x0A answer = pre @ (drop 5 (sha1 pw) @ 0x3A # count) # post
         \<and> (\<forall>l\<in>set pre. takeWhile (\<lambda>c. c \<noteq> 0x3A) l \<noteq> drop 5 (sha1 pw)) \<longrightarrow>
           fst (handler ul fetch req)
             = breached_response (parseInt (trim (takeWhile (\<lambda>c. c \<noteq> 0x3A) count))))
        \<and> ((\<forall>l\<in>set (split_js 0x0A answer). takeWhile (\<lambda>c. c \<noteq> 0x3A) l \<noteq> drop 5 (sha1 pw)) \<longrightarrow>
           fst (handler ul fetch req) = clean_response))"
proof -
  have digest: "sha1 (js ''password'') = js ''5BAA61E4C9B93F3F0682250B6CF8331B7EE68FD8''"
    by (rule sha1_password)
  have parts: "take 5 (sha1 (js ''password'')) = js ''5BAA6''"
    "drop 5 (sha1 (js ''password'')) = js ''1E4C9B93F3F0682250B6CF8331B7EE68FD8''"
    by (simp_all add: sha1_password) (simp_all add: js_def)
  have general: "request_password req = Some pw \<and> strengthIssues ul pw = []
        \<and> fetch (range_request (take 5 (sha1 pw))) = FetchResponse st (Some answer)
        \<and> response_ok st \<longrightarrow>
        (split_js 0x0A answer = pre @ (drop 5 (sha1 pw) @ 0x3A # count) # post
         \<and> (\<forall>l\<in>set pre. takeWhile (\<lambda>c. c \<noteq> 0x3A) l \<noteq> drop 5 (sha1 pw)) \<longrightarrow>
           fst (handler ul fetch req)
             = breached_response (parseInt (trim (takeWhile (\<lambda>c. c \<noteq> 0x3A) count))))
        \<and> ((\<forall>l\<in>set (split_js 0x0A answer). takeWhile (\<lambda>c. c \<noteq> 0x3A) l \<noteq> drop 5 (sha1 pw)) \<longrightarrow>
           fst (handler ul fetch req) = clean_response)"
  proof (intro impI)
    assume a: "request_password req = Some pw \<and> strengthIssues ul pw = []
        \<and> fetch (range_request (take 5 (sha1 pw))) = FetchResponse st (Some answer)
        \<and> response_ok st"
    then have h: "handler ul fetch req =
           (case breach_lookup fetch pw of
              (Inr r, out) \<Rightarrow> (r, out)
            | (Inl e, out) \<Rightarrow> (internal_error_response e, out))"
      by (simp add: handler_lookup)
    from a have look: "fst (breach_lookup fetch pw) =
        (case scan_hashes (drop 5 (sha1 pw)) (split_js 0x0A answer) of
           Inl e \<Rightarrow> Inl e
         | Inr (Some r) \<Rightarrow> Inr r
         | Inr None \<Rightarrow> Inr clean_response)"
      by (simp add: breach_lookup_def Let_def)
    show "(split_js 0x0A answer = pre @ (drop 5 (sha1 pw) @ 0x3A # count) # post
         \<and> (\<forall>l\<in>set pre. takeWhile (\<lambda>c. c \<noteq> 0x3A) l \<noteq> drop 5 (sha1 pw)) \<longrightarrow>
           fst (handler ul fetch req)
             = breached_response (parseInt (trim (takeWhile (\<lambda>c. c \<noteq> 0x3A) count))))
        \<and> ((\<forall>l\<in>set (split_js 0x0A answer). takeWhile (\<lambda>c. c \<noteq> 0x3A) l \<noteq> drop 5 (sha1 pw)) \<longrightarrow>
           fst (handler ul fetch req) = clean_response)"
    proof (intro conjI impI)
      assume m: "split_js 0x0A answer = pre @ (drop 5 (sha1 pw) @ 0x3A # count) # post
         \<and> (\<forall>l\<in>set pre. takeWhile (\<lambda>c. c \<noteq> 0x3A) l \<noteq> drop 5 (sha1 pw))"
      then have "scan_hashes (drop 5 (sha1 pw)) (split_js 0x0A answer) =
          Inr (Some (breached_response (parseInt (trim (takeWhile (\<lambda>c. c \<noteq> 0x3A) count)))))"
        using scan_hashes_match [of pre "drop 5 (sha1 pw)" count post] sha1_suffix_no_colon [of pw]
        by simp
      with look have "fst (breach_lookup fetch pw) =
          Inr (breached_response (parseInt (trim (takeWhile (\<lambda>c. c \<noteq> 0x3A) count))))"
        by simp
      then show "fst (handler ul fetch req)
             = breached_response (parseInt (trim (takeWhile (\<lambda>c. c \<noteq> 0x3A) count)))"
        unfolding h by (cases "breach_lookup fetch pw") simp
    next
      assume "\<forall>l\<in>set (split_js 0x0A answer). takeWhile (\<lambda>c. c \<noteq> 0x3A) l \<noteq> drop 5 (sha1 pw)"
      then have "scan_hashes (drop 5 (sha1 pw)) (split_js 0x0A answer) = Inr None"
        by (rule scan_hashes_no_match)
      with look have "fst (breach_lookup fetch pw) = Inr clean_response"
        by simp
      then show "fst (handler ul fetch req) = clean_response"
        unfolding h by (cases "breach_lookup fetch pw") simp
    qed
  qed
  from digest parts general show ?thesis
    by (simp only: password_lookup_breached password_lookup_other_suffix
          password_lookup_lower_case body_field_breached body_field_clean fst_conv
          simp_thms)
qed

theorem breach_suffix_matching_witness:
  "fst (handler unicode_unchanged
          (stub_remote 200
             (js ''0018A45C4D1DEF81644B54AB7F969B88D65:1'' @ 0x0D # 0x0A #
              js ''0D9CD2F0CF249A7E9299102FC4FE4137260:3730471'' @ [0x0D]))
          (post_password (js ''Correct-Horse-236!'')))
     = breached_response (Num 3730471)
   \<and> fst (handler unicode_unchanged
          (stub_remote 200
             (js ''0d9cd2f0cf249a7e9299102fc4fe4137260:3730471'' @ 0x0A #
              js ''0D9CD2F0CF249A7E9299102FC4FE4137261:7''))
          (post_password (js ''Correct-Horse-236!'')))
     = clean_response"
proof -
  let ?pw = "js ''Correct-Horse-236!''"
  let ?pre = "[js ''0018A45C4D1DEF81644B54AB7F969B88D65:1'' @ [0x0D]]"
  let ?count = "js ''3730471'' @ [0x0D]"
  let ?text1 = "js ''0018A45C4D1DEF81644B54AB7F969B88D65:1'' @ 0x0D # 0x0A #
              js ''0D9CD2F0CF249A7E9299102FC4FE4137260:3730471'' @ [0x0D]"
  let ?text2 = "js ''0d9cd2f0cf249a7e9299102fc4fe4137260:3730471'' @ 0x0A #
              js ''0D9CD2F0CF249A7E9299102FC4FE4137261:7''"
  have sfx: "drop 5 (sha1 ?pw) = js ''0D9CD2F0CF249A7E9299102FC4FE4137260''"
    by (simp add: sha1_example) (simp add: js_def)
  have hyp1: "request_password (post_password ?pw) = Some ?pw
      \<and> strengthIssues unicode_unchanged ?pw = []
      \<and> stub_remote 200 ?text1 (range_request (take 5 (sha1 ?pw))) = FetchResponse 200 (Some ?text1)
      \<and> response_ok 200"
    by (simp add: request_password_post example_no_issues stub_remote_def response_ok_def)
  have hyp2: "request_password (post_password ?pw) = Some ?pw
      \<and> strengthIssues unicode_unchanged ?pw = []
      \<and> stub_remote 200 ?text2 (range_request (take 5 (sha1 ?pw))) = FetchResponse 200 (Some ?text2)
      \<and> response_ok 200"
    by (simp add: request_password_post example_no_issues stub_remote_def response_ok_def)
  have lines1: "split_js 0x0A ?text1 = ?pre @ (drop 5 (sha1 ?pw) @ 0x3A # ?count) # []
      \<and> (\<forall>l\<in>set ?pre. takeWhile (\<lambda>c. c \<noteq> 0x3A) l \<noteq> drop 5 (sha1 ?pw))"
    unfolding sfx by (simp add: js_def)
  have lines2: "\<forall>l\<in>set (split_js 0x0A ?text2). takeWhile (\<lambda>c. c \<noteq> 0x3A) l \<noteq> drop 5 (sha1 ?pw)"
    unfolding sfx by (simp add: js_def)
  have count: "parseInt (trim (takeWhile (\<lambda>c. c \<noteq> 0x3A) ?count)) = Num 3730471"
    by (simp add: text_eval)
  note g1 = breach_suffix_matching [where req = "post_password ?pw" and pw = "?pw"
      and ul = "unicode_unchanged" and fetch = "stub_remote 200 ?text1" and st = "200"
      and answer = "?text1" and pre = "?pre" and count = "?count" and post = "[]",
      THEN conjunct2, THEN conjunct2, THEN conjunct2, THEN conjunct2, THEN conjunct2,
      THEN conjunct2, THEN conjunct2, THEN conjunct2, THEN conjunct2, THEN conjunct2,
      THEN mp, OF hyp1]
  note g2 = breach_suffix_matching [where req = "post_password ?pw" and pw = "?pw"
      and ul = "unicode_unchanged" and fetch = "stub_remote 200 ?text2" and st = "200"
      and answer = "?text2",
      THEN conjunct2, THEN conjunct2, THEN conjunct2, THEN conjunct2, THEN conjunct2,
      THEN conjunct2, THEN conjunct2, THEN conjunct2, THEN conjunct2, THEN conjunct2,
      THEN mp, OF hyp2]
  from g1 [THEN conjunct1, THEN mp, OF lines1] count
  have a: "fst (handler unicode_unchanged (stub_remote 200 ?text1) (post_password ?pw))
      = breached_response (Num 3730471)"
    by (simp only:)
  from g2 [THEN conjunct2, THEN mp, OF lines2]
  have b: "fst (handler unicode_unchanged (stub_remote 200 ?text2) (post_password ?pw))
      = clean_response" .
  from a b show ?thesis
    by (intro conjI)
qed

text \<open>
  C3 as the specification words it fails. The digest of \<open>password\<close> is not the 39
  digits it gives, and the suffix not the 34: against an answer with the line
  \<open>1E4C9B93F3F0682250B6CF8331B7EE68FD:3730471\<close> the breach lookup finds no match. The
  handler does not run the lookup on \<open>password\<close> at all: it answers weak, with
  \<open>isBreached = false\<close>.
\<close>

theorem password_vector_counterexample:
  "sha1 (js ''password'') \<noteq> js ''5BAA61E4C9B93F3F0682250B6CF8331B7EE68FD''
   \<and> drop 5 (sha1 (js ''password'')) \<noteq> js ''1E4C9B93F3F0682250B6CF8331B7EE68FD''
   \<and> fst (breach_lookup
             (stub_remote 200 (js ''1E4C9B93F3F0682250B6CF8331B7EE68FD:3730471''))
             (js ''password'')) = Inr clean_response
   \<and> fst (handler unicode_unchanged
             (stub_remote 200 (js ''1E4C9B93F3F0682250B6CF8331B7EE68FD:3730471''))
             (post_password (js ''password'')))
       = weak_response [msg_length, msg_upper, msg_number, msg_special, msg_common]
   \<and> body_field
         (fst (handler unicode_unchanged
                 (stub_remote 200 (js ''1E4C9B93F3F0682250B6CF8331B7EE68FD:3730471''))
                 (post_password (js ''password''))))
         ''isBreached'' = Some (JBool False)"
proof -
  have a: "sha1 (js ''password'') \<noteq> js ''5BAA61E4C9B93F3F0682250B6CF8331B7EE68FD''"
    by (simp add: sha1_password) (simp add: js_def)
  have b: "drop 5 (sha1 (js ''password'')) \<noteq> js ''1E4C9B93F3F0682250B6CF8331B7EE68FD''"
    by (simp add: sha1_password) (simp add: js_def)
  from a b show ?thesis
    by (simp add: password_lookup_spec_line password_weak body_field_weak
          del: body_field.simps)
qed

text \<open>
  C4 (as the code has it). A request whose password is a non-empty string of fewer than
  12 code units is answered with status 200, \<open>isWeak = true\<close> and a list of issues
  that holds the length complaint, whatever the code units are, and without an
  outbound request.
\<close>

theorem short_password_weak:
  assumes "request_password req = Some pw" and "pw \<noteq> []" and "length pw < 12"
  shows "res_status (fst (handler ul fetch req)) = 200
    \<and> body_field (fst (handler ul fetch req)) ''isWeak'' = Some (JBool True)
    \<and> body_field (fst (handler ul fetch req)) ''issues''
         = Some (JArr (map JStr (strengthIssues ul pw)))
    \<and> msg_length \<in> set (strengthIssues ul pw)
    \<and> snd (handler ul fetch req) = []"
proof -
  from assms(3) have iss: "msg_length \<in> set (strengthIssues ul pw)"
    by (simp add: strengthIssues_eq)
  then have "strengthIssues ul pw \<noteq> []"
    by auto
  with assms(1,2) have "handler ul fetch req = (weak_response (strengthIssues ul pw), [])"
    by (simp add: handler_password)
  with iss show ?thesis
    by (simp add: body_field_weak res_status_simps del: body_field.simps)
qed

theorem short_password_weak_witness:
  "res_status (fst (handler unicode_unchanged unreachable_remote (post_password (js ''Aa1!'')))) = 200
   \<and> body_field (fst (handler unicode_unchanged unreachable_remote (post_password (js ''Aa1!''))))
        ''isWeak'' = Some (JBool True)
   \<and> body_field (fst (handler unicode_unchanged unreachable_remote (post_password (js ''Aa1!''))))
        ''issues'' = Some (JArr [JStr msg_length])"
proof -
  let ?pw = "js ''Aa1!''"
  have h2: "?pw \<noteq> []" and h3: "length ?pw < 12"
    by (simp_all add: js_def)
  have iss: "strengthIssues unicode_unchanged ?pw = [msg_length]"
    by (simp add: policy_eval)
  from short_password_weak [OF request_password_post h2 h3, of unicode_unchanged
      unreachable_remote] iss
  show ?thesis
    by (simp del: body_field.simps)
qed

text \<open>
  C4 as the specification words it fails at the empty string, which is shorter than
  12: the handler answers it with status 400 and a body without \<open>isWeak\<close>.
\<close>

theorem empty_password_counterexample:
  "length ([] :: jsstring) < 12
   \<and> handler unicode_unchanged unreachable_remote (post_password []) = (bad_request_response, [])
   \<and> res_status (fst (handler unicode_unchanged unreachable_remote (post_password []))) = 400
   \<and> body_field (fst (handler unicode_unchanged unreachable_remote (post_password [])))
         ''isWeak'' = None"
  by (simp add: handler_password request_password_post res_status_simps
        body_field_bad_request response_eval)

text \<open>
  C5. For two requests whose passwords pass the evaluator and whose digests begin with
  the same five digits, the handler makes the same outbound requests, whatever the
  remote service answers: the one request to the range address of those five digits,
  with the padding header.
\<close>

theorem outbound_request_prefix_only:
  assumes "request_password req1 = Some pw1" and "strengthIssues ul pw1 = []"
    and "request_password req2 = Some pw2" and "strengthIssues ul pw2 = []"
    and "take 5 (sha1 pw1) = take 5 (sha1 pw2)"
  shows "snd (handler ul fetch1 req1) = snd (handler ul fetch2 req2)
    \<and> snd (handler ul fetch1 req1) =
        [\<lparr>fetch_url = js ''https://api.pwnedpasswords.com/range/'' @ take 5 (sha1 pw1),
          fetch_headers = [(js ''Add-Padding'', js ''true'')]\<rparr>]"
proof -
  have out: "\<And>req pw fetch. request_password req = Some pw \<Longrightarrow> strengthIssues ul pw = [] \<Longrightarrow>
      snd (handler ul fetch req) = [range_request (take 5 (sha1 pw))]"
  proof -
    fix req pw fetch
    assume a: "request_password req = Some pw" "strengthIssues ul pw = []"
    have "snd (handler ul fetch req) = snd (breach_lookup fetch pw)"
      unfolding handler_lookup [OF a] by (simp split: prod.splits sum.splits)
    then show "snd (handler ul fetch req) = [range_request (take 5 (sha1 pw))]"
      by (simp add: snd_breach_lookup)
  qed
  from out [OF assms(1,2), of fetch1] out [OF assms(3,4), of fetch2] assms(5)
  show ?thesis
    by (simp add: range_request_def)
qed

theorem outbound_request_prefix_only_witness:
  "js ''Correct-Horse-236!'' \<noteq> js ''Correct-Horse-250!''
   \<and> sha1 (js ''Correct-Horse-236!'') \<noteq> sha1 (js ''Correct-Horse-250!'')
   \<and> snd (handler unicode_unchanged unreachable_remote (post_password (js ''Correct-Horse-236!'')))
       = snd (handler unicode_unchanged (stub_remote 200 []) (post_password (js ''Correct-Horse-250!'')))
   \<and> snd (handler unicode_unchanged unreachable_remote (post_password (js ''Correct-Horse-236!'')))
       = [\<lparr>fetch_url = js ''https://api.pwnedpasswords.com/range/26C00'',
           fetch_headers = [(js ''Add-Padding'', js ''true'')]\<rparr>]"
proof -
  let ?p1 = "js ''Correct-Horse-236!''"
  let ?p2 = "js ''Correct-Horse-250!''"
  have pre1: "take 5 (sha1 ?p1) = js ''26C00''"
    by (simp add: sha1_example) (simp add: js_def)
  have pre2: "take 5 (sha1 ?p2) = js ''26C00''"
    by (simp add: sha1_example2) (simp add: js_def)
  have same: "take 5 (sha1 ?p1) = take 5 (sha1 ?p2)"
    using pre1 pre2 by simp
  have diff: "?p1 \<noteq> ?p2" "sha1 ?p1 \<noteq> sha1 ?p2"
    by (simp_all add: sha1_example sha1_example2) (simp_all add: js_def)
  have url: "js ''https://api.pwnedpasswords.com/range/'' @ js ''26C00''
      = js ''https://api.pwnedpasswords.com/range/26C00''"
    by (simp add: js_def)
  note inst = outbound_request_prefix_only [where ul = unicode_unchanged
      and ?fetch1.0 = unreachable_remote and ?fetch2.0 = "stub_remote 200 []",
      OF request_password_post example_no_issues(1) request_password_post
        example_no_issues(2) same]
  from inst have a: "snd (handler unicode_unchanged unreachable_remote (post_password ?p1))
      = snd (handler unicode_unchanged (stub_remote 200 []) (post_password ?p2))"
    by (rule conjunct1)
  from inst have "snd (handler unicode_unchanged unreachable_remote (post_password ?p1))
      = [\<lparr>fetch_url = js ''https://api.pwnedpasswords.com/range/'' @ take 5 (sha1 ?p1),
          fetch_headers = [(js ''Add-Padding'', js ''true'')]\<rparr>]"
    by (rule conjunct2)
  then have b: "snd (handler unicode_unchanged unreachable_remote (post_password ?p1))
      = [\<lparr>fetch_url = js ''https://api.pwnedpasswords.com/range/26C00'',
          fetch_headers = [(js ''Add-Padding'', js ''true'')]\<rparr>]"
    by (simp only: pre1 url)
  from diff a b show ?thesis
    by (intro conjI)
qed

text \<open>
  C6. A password of at least 12 code units with an upper-case letter, a lower-case
  letter, a digit and a code unit outside \<open>[A-Za-z0-9]\<close>, whose lower-cased form is not
  on the deny-list, gets no issue from the evaluator, and the handler goes on to the
  breach lookup: its answer is that of the lookup and it makes the one outbound request.
\<close>

theorem compliant_password_reaches_lookup:
  assumes "request_password req = Some pw"
    and "12 \<le> length pw"
    and "\<exists>c\<in>set pw. 0x41 \<le> c \<and> c \<le> 0x5A"
    and "\<exists>c\<in>set pw. 0x61 \<le> c \<and> c \<le> 0x7A"
    and "\<exists>c\<in>set pw. 0x30 \<le> c \<and> c \<le> 0x39"
    and "\<exists>c\<in>set pw. \<not> (0x41 \<le> c \<and> c \<le> 0x5A) \<and> \<not> (0x61 \<le> c \<and> c \<le> 0x7A)
                     \<and> \<not> (0x30 \<le> c \<and> c \<le> 0x39)"
    and "toLowerCase ul pw \<notin> set commonPasswords"
  shows "strengthIssues ul pw = []
    \<and> handler ul fetch req =
         (case breach_lookup fetch pw of
            (Inr r, out) \<Rightarrow> (r, out)
          | (Inl e, out) \<Rightarrow> (internal_error_response e, out))
    \<and> snd (handler ul fetch req) = [range_request (take 5 (sha1 pw))]"
proof -
  have none: "strengthIssues ul pw = []"
    using assms(2-7)
    by (simp add: no_issues_iff regex_test_def list_ex_iff is_upper_def is_lower_def
          is_number_def is_special_def)
  from assms(2) have "pw \<noteq> []" by auto
  with none assms(1) have h: "handler ul fetch req =
         (case breach_lookup fetch pw of
            (Inr r, out) \<Rightarrow> (r, out)
          | (Inl e, out) \<Rightarrow> (internal_error_response e, out))"
    by (simp add: handler_password)
  have "snd (handler ul fetch req) = snd (breach_lookup fetch pw)"
    unfolding h by (simp split: prod.splits sum.splits)
  with none h show ?thesis
    by (simp add: snd_breach_lookup)
qed

theorem compliant_password_reaches_lookup_witness:
  "strengthIssues unicode_unchanged (js ''Correct-Horse-236!'') = []
   \<and> snd (handler unicode_unchanged unreachable_remote
             (post_password (js ''Correct-Horse-236!'')))
       = [range_request (js ''26C00'')]"
proof -
  let ?pw = "js ''Correct-Horse-236!''"
  have h2: "12 \<le> length ?pw"
    by (simp add: js_def)
  have h3: "\<exists>c\<in>set ?pw. 0x41 \<le> c \<and> c \<le> 0x5A"
    by (simp add: js_def)
  have h4: "\<exists>c\<in>set ?pw. 0x61 \<le> c \<and> c \<le> 0x7A"
    by (simp add: js_def)
  have h5: "\<exists>c\<in>set ?pw. 0x30 \<le> c \<and> c \<le> 0x39"
    by (simp add: js_def)
  have h6: "\<exists>c\<in>set ?pw. \<not> (0x41 \<le> c \<and> c \<le> 0x5A) \<and> \<not> (0x61 \<le> c \<and> c \<le> 0x7A)
                     \<and> \<not> (0x30 \<le> c \<and> c \<le> 0x39)"
    by (simp add: js_def)
  have h7: "toLowerCase unicode_unchanged ?pw \<notin> set commonPasswords"
    by (simp add: toLowerCase_def ascii_lower_def commonPasswords_def js_def)
  have pre: "take 5 (sha1 ?pw) = js ''26C00''"
    by (simp add: sha1_example) (simp add: js_def)
  note inst = compliant_password_reaches_lookup [OF request_password_post h2 h3 h4 h5 h6 h7,
      of unreachable_remote]
  from inst have a: "strengthIssues unicode_unchanged ?pw = []"
    by blast
  from inst have b: "snd (handler unicode_unchanged unreachable_remote (post_password ?pw))
      = [range_request (take 5 (sha1 ?pw))]"
    by blast
  from a b pre show ?thesis
    by simp
qed

text \<open>
  C7. Membership in the deny-list is tested on the lower-cased password: whenever
  \<open>toLowerCase\<close> of the input is an entry, the common-password issue is in the list and
  the request is answered as weak. \<open>Password\<close> lower-cases to the entry \<open>password\<close> and
  gets the issue.
\<close>

theorem deny_list_case_insensitive:
  "(toLowerCase ul pw \<in> set commonPasswords \<longrightarrow>
      msg_common \<in> set (strengthIssues ul pw)
      \<and> (request_password req = Some pw \<longrightarrow>
           handler ul fetch req = (weak_response (strengthIssues ul pw), [])))
   \<and> js ''password'' \<in> set commonPasswords
   \<and> toLowerCase ul (js ''Password'') = js ''password''
   \<and> strengthIssues ul (js ''Password'') = [msg_length, msg_number, msg_special, msg_common]"
proof (intro conjI impI)
  assume a: "toLowerCase ul pw \<in> set commonPasswords"
  then show c: "msg_common \<in> set (strengthIssues ul pw)"
    by (simp add: strengthIssues_eq)
  assume r: "request_password req = Some pw"
  have "toLowerCase ul [] \<notin> set commonPasswords"
    by (simp add: toLowerCase_def commonPasswords_def js_def)
  with a have "pw \<noteq> []" by auto
  moreover from c have "strengthIssues ul pw \<noteq> []" by auto
  ultimately show "handler ul fetch req = (weak_response (strengthIssues ul pw), [])"
    using r by (simp add: handler_password)
qed (simp_all add: policy_eval)

theorem deny_list_case_insensitive_witness:
  "toLowerCase unicode_unchanged (js ''PASSWORD123'') = js ''password123''
   \<and> msg_common \<in> set (strengthIssues unicode_unchanged (js ''PASSWORD123''))
   \<and> handler unicode_unchanged unreachable_remote (post_password (js ''PASSWORD123''))
       = (weak_response [msg_length, msg_lower, msg_special, msg_common], [])"
proof -
  let ?pw = "js ''PASSWORD123''"
  have low: "toLowerCase unicode_unchanged ?pw = js ''password123''"
    by (simp add: toLowerCase_def ascii_lower_def js_def)
  have h: "toLowerCase unicode_unchanged ?pw \<in> set commonPasswords"
    by (simp add: toLowerCase_def ascii_lower_def commonPasswords_def js_def)
  have iss: "strengthIssues unicode_unchanged ?pw = [msg_length, msg_lower, msg_special, msg_common]"
    by (simp add: policy_eval)
  from deny_list_case_insensitive [of unicode_unchanged ?pw "post_password ?pw"
      unreachable_remote] h low iss
  show ?thesis
    by (simp add: request_password_post)
qed

text \<open>
  C8. A POST request whose body is a JSON object in which \<open>password\<close> is missing or is
  not a string is answered with status 400 and the body
  \<open>{ "error": "Password is required" }\<close>, with no outbound request.
\<close>

theorem missing_password_400:
  assumes "req_method req = js ''POST''"
    and "req_json req = Some (JObj kvs)"
    and "typeof (get_prop kvs (js ''password'')) \<noteq> ''string''"
  shows "handler ul fetch req = (bad_request_response, [])
    \<and> res_status bad_request_response = 400
    \<and> res_body bad_request_response
         = JsonBody (JObj [(js ''error'', JStr (js ''Password is required''))])"
proof -
  have "req_method req \<noteq> js ''OPTIONS''"
    using assms(1) by (simp add: js_def)
  then have "handler ul fetch req = (bad_request_response, [])"
    using assms(2,3) by (simp add: handler_def handler_try_def)
  then show ?thesis
    by (simp add: bad_request_response_def json_response_def)
qed

theorem missing_password_400_witness:
  "handler unicode_unchanged unreachable_remote
     \<lparr>req_method = js ''POST'', req_json = Some (JObj [])\<rparr> = (bad_request_response, [])
   \<and> handler unicode_unchanged unreachable_remote
     \<lparr>req_method = js ''POST'', req_json = Some (JObj [(js ''password'', JNum (Num 12345))])\<rparr>
       = (bad_request_response, [])
   \<and> res_status bad_request_response = 400"
proof -
  let ?r1 = "\<lparr>req_method = js ''POST'', req_json = Some (JObj [])\<rparr>"
  let ?r2 = "\<lparr>req_method = js ''POST'',
               req_json = Some (JObj [(js ''password'', JNum (Num 12345))])\<rparr>"
  have a: "typeof (get_prop [] (js ''password'')) \<noteq> ''string''"
    by (simp add: get_prop_def)
  have b: "typeof (get_prop [(js ''password'', JNum (Num 12345))] (js ''password'')) \<noteq> ''string''"
    by (simp add: get_prop_def)
  from missing_password_400 [of ?r1 "[]" unicode_unchanged unreachable_remote, OF _ _ a]
    missing_password_400 [of ?r2 "[(js ''password'', JNum (Num 12345))]" unicode_unchanged
      unreachable_remote, OF _ _ b]
  show ?thesis
    by simp
qed

text \<open>
  C9. \<open>checkPassword\<close> always resolves to a value. When the endpoint answers with a
  status from 200 to 299 and a JSON body, the value is that body. When the call fails
  in transport, when the status is another one, and when the body is not JSON, the
  value is the local result with \<open>apiError = true\<close>, \<open>isBreached = false\<close> and
  \<open>isWeak = false\<close>.
\<close>

theorem checkPassword_never_rejects:
  "(\<exists>result. checkPassword e fetch password = Inr result)
   \<and> (fetch (check_request e password) = ClientResponse st (Some result) \<and> response_ok st \<longrightarrow>
        checkPassword e fetch password = Inr result)
   \<and> (fetch (check_request e password) = ClientFetchRejects
        \<or> (fetch (check_request e password) = ClientResponse st parsed \<and> \<not> response_ok st)
        \<or> (fetch (check_request e password) = ClientResponse st None) \<longrightarrow>
        checkPassword e fetch password = Inr unable_result)
   \<and> json_field unable_result ''apiError'' = Some (JBool True)
   \<and> json_field unable_result ''isBreached'' = Some (JBool False)
   \<and> json_field unable_result ''isWeak'' = Some (JBool False)"
proof (intro conjI impI)
  show "\<exists>result. checkPassword e fetch password = Inr result"
    by (simp add: checkPassword_def split: sum.splits)
next
  assume "fetch (check_request e password) = ClientResponse st (Some result) \<and> response_ok st"
  then show "checkPassword e fetch password = Inr result"
    by (simp add: checkPassword_def checkPassword_try_def)
next
  assume "fetch (check_request e password) = ClientFetchRejects
        \<or> (fetch (check_request e password) = ClientResponse st parsed \<and> \<not> response_ok st)
        \<or> (fetch (check_request e password) = ClientResponse st None)"
  then show "checkPassword e fetch password = Inr unable_result"
    by (auto simp: checkPassword_def checkPassword_try_def)
qed (simp_all add: unable_result_def get_prop_def js_def)

theorem checkPassword_never_rejects_witness:
  "checkPassword example_env (client_stub (ClientResponse 200 (Some unable_result)))
      (js ''Correct-Horse-236!'') = Inr unable_result
   \<and> checkPassword example_env
        (client_stub (ClientResponse 200 (Some (JObj [(js ''isBreached'', JBool True)]))))
        (js ''Correct-Horse-236!'') = Inr (JObj [(js ''isBreached'', JBool True)])
   \<and> checkPassword example_env (client_stub ClientFetchRejects) (js ''Correct-Horse-236!'')
       = Inr unable_result
   \<and> checkPassword example_env (client_stub (ClientResponse 500 (Some JNull)))
        (js ''Correct-Horse-236!'') = Inr unable_result
   \<and> checkPassword example_env (client_stub (ClientResponse 200 None))
        (js ''Correct-Horse-236!'') = Inr unable_result"
proof -
  let ?pw = "js ''Correct-Horse-236!''"
  let ?v = "JObj [(js ''isBreached'', JBool True)]"
  have ok: "response_ok 200" and bad: "\<not> response_ok 500"
    by (simp_all add: response_ok_def)
  from checkPassword_never_rejects [of example_env "client_stub (ClientResponse 200 (Some unable_result))"
      ?pw 200 unable_result] ok
  have a: "checkPassword example_env (client_stub (ClientResponse 200 (Some unable_result))) ?pw
      = Inr unable_result"
    by (simp add: client_stub_def)
  from checkPassword_never_rejects [of example_env "client_stub (ClientResponse 200 (Some ?v))"
      ?pw 200 ?v] ok
  have b: "checkPassword example_env (client_stub (ClientResponse 200 (Some ?v))) ?pw = Inr ?v"
    by (simp add: client_stub_def)
  from checkPassword_never_rejects [of example_env "client_stub ClientFetchRejects" ?pw]
  have c: "checkPassword example_env (client_stub ClientFetchRejects) ?pw = Inr unable_result"
    by (simp add: client_stub_def)
  from checkPassword_never_rejects [of example_env "client_stub (ClientResponse 500 (Some JNull))"
      ?pw 500 _ "Some JNull"] bad
  have d: "checkPassword example_env (client_stub (ClientResponse 500 (Some JNull))) ?pw
      = Inr unable_result"
    by (simp add: client_stub_def)
  from checkPassword_never_rejects [of example_env "client_stub (ClientResponse 200 None)"
      ?pw 200]
  have e: "checkPassword example_env (client_stub (ClientResponse 200 None)) ?pw
      = Inr unable_result"
    by (simp add: client_stub_def)
  from a b c d e show ?thesis
    by blast
qed

text \<open>
  C10. For every password the evaluator's list is the six complaints in the fixed order
  length, upper case, lower case, digit, special character, common password, each one
  present exactly when its rule is violated: the list is a subsequence of the six, has
  no entry twice and at most six entries.
\<close>

theorem strengthIssues_order:
  "strengthIssues ul pw =
     (if length pw < 12 then [msg_length] else []) @
     (if \<not> regex_test is_upper pw then [msg_upper] else []) @
     (if \<not> regex_test is_lower pw then [msg_lower] else []) @
     (if \<not> regex_test is_number pw then [msg_number] else []) @
     (if \<not> regex_test is_special pw then [msg_special] else []) @
     (if toLowerCase ul pw \<in> set commonPasswords then [msg_common] else [])
   \<and> subseq (strengthIssues ul pw)
         [msg_length, msg_upper, msg_lower, msg_number, msg_special, msg_common]
   \<and> distinct (strengthIssues ul pw)
   \<and> length (strengthIssues ul pw) \<le> 6"
proof -
  let ?all = "[msg_length, msg_upper, msg_lower, msg_number, msg_special, msg_common]"
  have sub: "subseq (strengthIssues ul pw) ?all"
    by (rule strengthIssues_subseq)
  have dist: "distinct (strengthIssues ul pw)"
    using sub msgs_distinct by (rule subseq_imp_distinct)
  have "length (strengthIssues ul pw) \<le> length ?all"
    using sub by (rule list_emb_length)
  then have len: "length (strengthIssues ul pw) \<le> 6"
    by simp
  show ?thesis
    using sub dist len strengthIssues_eq [of ul pw] by blast
qed

end
